theory Spec2Isabelle
  imports Main
begin

section \<open>JavaScript values used by the scanner\<close>

text \<open>
  Numbers that the source reads from objects it does not construct itself (the fields of
  a scan region, the dimensions of an image) may be absent. Such a number is an
  \<open>int option\<close>: \<open>None\<close> is \<open>undefined\<close>. A number is falsy when it is
  \<open>undefined\<close> or \<open>0\<close>; a negative number is truthy. Only whole numbers are
  modelled.
\<close>

definition truthy :: "int option \<Rightarrow> bool" where
  "truthy v = (case v of None \<Rightarrow> False | Some n \<Rightarrow> n \<noteq> 0)"

text \<open>The operator \<open>a || b\<close> on such numbers.\<close>

definition js_or :: "int option \<Rightarrow> int option \<Rightarrow> int option" where
  "js_or a b = (if truthy a then a else b)"

text \<open>
  The \<open>width\<close> and \<open>height\<close> of a canvas are \<open>unsigned long\<close> attributes that
  reflect a content attribute. An assignment first converts the number to an unsigned
  32 bit integer (\<open>undefined\<close> becomes \<open>0\<close>, any other number is taken modulo
  \<open>2\<^sup>3\<^sup>2\<close>); a result above \<open>2147483647\<close> is replaced by the attribute's default.
\<close>

definition ToUint32 :: "int option \<Rightarrow> int" where
  "ToUint32 v = (case v of None \<Rightarrow> 0 | Some n \<Rightarrow> n mod 4294967296)"

definition reflect_ulong :: "int \<Rightarrow> int option \<Rightarrow> int" where
  "reflect_ulong dflt v = (if ToUint32 v > 2147483647 then dflt else ToUint32 v)"

text \<open>The numbers such an attribute stores as they are.\<close>

definition storable :: "int option \<Rightarrow> bool" where
  "storable v = (case v of None \<Rightarrow> False | Some n \<Rightarrow> 0 \<le> n \<and> n \<le> 2147483647)"

text \<open>
  The values a promise of the source is rejected with. Each constructor stands for one
  rejection of \<open>qr-scanner.js\<close>:
  \<^item> \<open>CameraNotFound\<close>: \<open>'Camera not found.'\<close> (\<open>_getMatchingCameraStream\<close>);
  \<^item> \<open>CameraNotStarted\<close>: \<open>'Camera not started or not available'\<close> (\<open>hasFlash\<close>);
  \<^item> \<open>NoFlashAvailable\<close>: \<open>'No flash available'\<close> (\<open>_setFlash\<close>);
  \<^item> \<open>NoQrCodeFound\<close>: \<open>QrScanner.NO_QR_CODE_FOUND\<close>;
  \<^item> \<open>ScannerError m\<close>: \<open>'Scanner error: ' + m\<close> (\<open>scanImage\<close>);
  \<^item> \<open>ImageLoadError\<close>: \<open>'Image load error'\<close> (\<open>_awaitImageLoad\<close>);
  \<^item> \<open>UnsupportedImageType\<close>: \<open>'Unsupported image type.'\<close> (\<open>_loadImage\<close>);
  \<^item> \<open>PlatformError m\<close>: an error object that comes from the browser
    (\<open>getUserMedia\<close>, \<open>applyConstraints\<close>, an exception), with its message.
  All but the last are strings.
\<close>

datatype js_error =
    CameraNotFound
  | CameraNotStarted
  | NoFlashAvailable
  | NoQrCodeFound
  | ScannerError string
  | ImageLoadError
  | UnsupportedImageType
  | PlatformError string

section \<open>Canvas sampler: \<open>_drawToCanvas\<close>\<close>

record scan_region =
  region_x :: "int option"
  region_y :: "int option"
  region_width :: "int option"
  region_height :: "int option"
  downScaledWidth :: "int option"
  downScaledHeight :: "int option"

text \<open>
  What \<open>_drawToCanvas\<close> reads of its source: \<open>image.width || image.videoWidth\<close> and
  \<open>image.height || image.videoHeight\<close>. \<open>image_id\<close> tells sources apart.
\<close>

record image =
  image_id :: nat
  image_width :: "int option"
  image_videoWidth :: "int option"
  image_height :: "int option"
  image_videoHeight :: "int option"

text \<open>
  One \<open>drawImage\<close> call: the source, the source rectangle and the size of the
  destination rectangle, which always starts at \<open>(0, 0)\<close>.
\<close>

record bitmap =
  bm_image :: image
  bm_sx :: "int option"
  bm_sy :: "int option"
  bm_sw :: "int option"
  bm_sh :: "int option"
  bm_dw :: int
  bm_dh :: int

text \<open>
  A canvas: its dimensions, what was last drawn on it (\<open>None\<close> after the bitmap was
  cleared), and \<open>canvas_resets\<close>, the number of assignments to \<open>width\<close> or
  \<open>height\<close> it has seen. Each such assignment clears the bitmap, also when the value
  does not change.
\<close>

record canvas =
  canvas_width :: int
  canvas_height :: int
  canvas_content :: "bitmap option"
  canvas_resets :: nat

text \<open>\<open>document.createElement('canvas')\<close>: a blank canvas of 300 by 150 pixels.\<close>

definition createElement_canvas :: canvas where
  "createElement_canvas =
     \<lparr>canvas_width = 300, canvas_height = 150, canvas_content = None, canvas_resets = 0\<rparr>"

definition set_canvas_width :: "int option \<Rightarrow> canvas \<Rightarrow> canvas" where
  "set_canvas_width v c =
     c\<lparr>canvas_width := reflect_ulong 300 v, canvas_content := None,
       canvas_resets := Suc (canvas_resets c)\<rparr>"

definition set_canvas_height :: "int option \<Rightarrow> canvas \<Rightarrow> canvas" where
  "set_canvas_height v c =
     c\<lparr>canvas_height := reflect_ulong 150 v, canvas_content := None,
       canvas_resets := Suc (canvas_resets c)\<rparr>"

text \<open>
  \<open>context.drawImage(image, sx, sy, sw, sh, 0, 0, canvas.width, canvas.height)\<close> on an
  opaque context: the whole bitmap is overwritten.
\<close>

definition drawImage ::
  "image \<Rightarrow> int option \<Rightarrow> int option \<Rightarrow> int option \<Rightarrow> int option \<Rightarrow> canvas \<Rightarrow> canvas" where
  "drawImage img sx sy sw sh c =
     c\<lparr>canvas_content :=
         Some \<lparr>bm_image = img, bm_sx = sx, bm_sy = sy, bm_sw = sw, bm_sh = sh,
               bm_dw = canvas_width c, bm_dh = canvas_height c\<rparr>\<rparr>"

text \<open>
  The four source-rectangle values of \<open>_drawToCanvas\<close>, e.g.
  \<open>scanRegion && scanRegion.x ? scanRegion.x : 0\<close>.
\<close>

definition scanRegionX :: "scan_region option \<Rightarrow> int option" where
  "scanRegionX scanRegion =
     (case scanRegion of
        None \<Rightarrow> Some 0
      | Some r \<Rightarrow> if truthy (region_x r) then region_x r else Some 0)"

definition scanRegionY :: "scan_region option \<Rightarrow> int option" where
  "scanRegionY scanRegion =
     (case scanRegion of
        None \<Rightarrow> Some 0
      | Some r \<Rightarrow> if truthy (region_y r) then region_y r else Some 0)"

definition scanRegionWidth :: "image \<Rightarrow> scan_region option \<Rightarrow> int option" where
  "scanRegionWidth img scanRegion =
     (case scanRegion of
        None \<Rightarrow> js_or (image_width img) (image_videoWidth img)
      | Some r \<Rightarrow>
          if truthy (region_width r) then region_width r
          else js_or (image_width img) (image_videoWidth img))"

definition scanRegionHeight :: "image \<Rightarrow> scan_region option \<Rightarrow> int option" where
  "scanRegionHeight img scanRegion =
     (case scanRegion of
        None \<Rightarrow> js_or (image_height img) (image_videoHeight img)
      | Some r \<Rightarrow>
          if truthy (region_height r) then region_height r
          else js_or (image_height img) (image_videoHeight img))"

text \<open>The size the canvas is given when it may be resized.\<close>

definition canvasWidth :: "image \<Rightarrow> scan_region option \<Rightarrow> int option" where
  "canvasWidth img scanRegion =
     (case scanRegion of
        None \<Rightarrow> scanRegionWidth img scanRegion
      | Some r \<Rightarrow>
          if truthy (downScaledWidth r) then downScaledWidth r
          else scanRegionWidth img scanRegion)"

definition canvasHeight :: "image \<Rightarrow> scan_region option \<Rightarrow> int option" where
  "canvasHeight img scanRegion =
     (case scanRegion of
        None \<Rightarrow> scanRegionHeight img scanRegion
      | Some r \<Rightarrow>
          if truthy (downScaledHeight r) then downScaledHeight r
          else scanRegionHeight img scanRegion)"

text \<open>
  The block guarded by \<open>if (!disallowCanvasResizing)\<close>. \<open>canvas.width !== canvasWidth\<close>
  compares a number with a possibly undefined one.
\<close>

definition resize_canvas :: "image \<Rightarrow> scan_region option \<Rightarrow> canvas \<Rightarrow> canvas" where
  "resize_canvas img scanRegion c =
     (let c1 = (if Some (canvas_width c) \<noteq> canvasWidth img scanRegion
                then set_canvas_width (canvasWidth img scanRegion) c else c)
      in if Some (canvas_height c1) \<noteq> canvasHeight img scanRegion
         then set_canvas_height (canvasHeight img scanRegion) c1 else c1)"

text \<open>
  \<open>_drawToCanvas(image, scanRegion, canvas, disallowCanvasResizing)\<close>. The source
  returns the canvas and its 2d context; the context only gives access to the canvas's
  bitmap, so the model returns the canvas.
\<close>

definition drawToCanvas ::
  "image \<Rightarrow> scan_region option \<Rightarrow> canvas option \<Rightarrow> bool \<Rightarrow> canvas" where
  "drawToCanvas img scanRegion canvas disallowCanvasResizing =
     (let c0 = (case canvas of None \<Rightarrow> createElement_canvas | Some c \<Rightarrow> c);
          c1 = (if \<not> disallowCanvasResizing then resize_canvas img scanRegion c0 else c0)
      in drawImage img (scanRegionX scanRegion) (scanRegionY scanRegion)
           (scanRegionWidth img scanRegion) (scanRegionHeight img scanRegion) c1)"

text \<open>
  The invariant of the data model: a region lies inside the frame and its downscale
  target is positive.
\<close>

definition region_inside :: "scan_region \<Rightarrow> int \<Rightarrow> int \<Rightarrow> bool" where
  "region_inside r frameWidth frameHeight =
     (case (region_x r, region_y r, region_width r, region_height r) of
        (Some x, Some y, Some w, Some h) \<Rightarrow>
          0 \<le> x \<and> 0 \<le> y \<and> 0 < w \<and> 0 < h \<and> x + w \<le> frameWidth \<and> y + h \<le> frameHeight
      | _ \<Rightarrow> False)"

section \<open>The browser\<close>

text \<open>
  The value stored under \<open>facingMode\<close> or \<open>deviceId\<close> of a constraint set: the
  preference itself (a soft match) or \<open>{ exact: preference }\<close>.
\<close>

datatype camera_match = Soft string | Exact string

record constraint_set =
  min_width :: "nat option"
  facingMode :: "camera_match option"
  deviceId :: "camera_match option"

datatype track_kind = VideoTrack | AudioTrack

record track =
  track_id :: nat
  track_kind :: track_kind
  track_label :: string

record stream =
  stream_id :: nat
  stream_tracks :: "track list"

text \<open>
  A decode engine is a \<open>Worker\<close> or a native \<open>BarcodeDetector\<close>. What an engine
  answers to one decode request is the browser's business:
  \<^item> a worker posts a \<open>qrResult\<close> message whose data is the payload or \<open>null\<close>, or
    raises an error event, of which \<open>WorkerError\<close> holds the \<open>message\<close>, or stays
    silent, and then the 10 second timeout of the source fires;
  \<^item> \<open>detect\<close> of a detector resolves with the raw values it found, or rejects with a
    value of which \<open>DetectError\<close> holds the \<open>message\<close> (empty when it has none) and
    the text it converts to, or stays silent for 10 seconds.
\<close>

datatype engine_kind = WorkerEngine | NativeDetector

record engine =
  engine_id :: nat
  engine_kind :: engine_kind

datatype worker_reply = QrResult "string option" | WorkerError string | WorkerSilent

datatype detector_reply = Detected "string list" | DetectError string string | DetectorSilent

text \<open>
  The state of an \<open>Image\<close> element when \<open>_awaitImageLoad\<close> looks at it: complete
  with a natural width other than zero; or still loading, and then its load event or its
  error event will fire; or neither, and no event will fire again, as for an image that
  has already failed to load.
\<close>

datatype image_state = AlreadyLoaded | LoadFires | ErrorFires | NothingFires

text \<open>
  What \<open>_loadImage\<close> can be given: an element that is drawn as it is (a canvas, a
  video, an \<open>ImageBitmap\<close>, an \<open>OffscreenCanvas\<close>), an \<open>Image\<close> element in some
  state, something that is loaded through a new \<open>Image\<close> (a \<open>File\<close>, a \<open>Blob\<close>, a
  \<open>URL\<close>, a string), or any other value.
\<close>

datatype image_source =
    Drawable image
  | ImageElement image image_state
  | Resource string
  | Unsupported

text \<open>
  The browser as the scanner sees it. Each function field gives the outcome of one
  call of the platform:
  \<^item> \<open>getUserMedia c\<close>: \<open>navigator.mediaDevices.getUserMedia({ video: c })\<close>;
  \<^item> \<open>photoCapabilities t\<close>: the \<open>fillLightMode\<close> list of
    \<open>new ImageCapture(t).getPhotoCapabilities()\<close>, \<open>None\<close> when it rejects;
  \<^item> \<open>applyConstraints t on\<close>: \<open>t.applyConstraints({ advanced: [{ torch: on }] })\<close>,
    \<open>Some e\<close> when it rejects with \<open>e\<close>;
  \<^item> \<open>supportedFormats\<close>: \<open>BarcodeDetector.getSupportedFormats()\<close>, \<open>None\<close> when
    \<open>window\<close> has no \<open>BarcodeDetector\<close>;
  \<^item> \<open>fetchImage u\<close>: the image a new \<open>Image\<close> with source \<open>u\<close> loads, \<open>None\<close>
    when its error event fires.
\<close>

record platform =
  mediaDevices :: bool
  getUserMedia :: "constraint_set \<Rightarrow> js_error + stream"
  document_hidden :: bool
  imageCapture :: bool
  photoCapabilities :: "track \<Rightarrow> string list option"
  applyConstraints :: "track \<Rightarrow> bool \<Rightarrow> js_error option"
  supportedFormats :: "string list option"
  fetchImage :: "string \<Rightarrow> image option"
  worker_reply :: "engine \<Rightarrow> canvas \<Rightarrow> worker_reply"
  detector_reply :: "engine \<Rightarrow> canvas \<Rightarrow> detector_reply"

section \<open>Camera acquisition: \<open>_getCameraStream\<close> and \<open>_getMatchingCameraStream\<close>\<close>

text \<open>The literal \<open>[{ width: { min: 1024 } }, { width: { min: 768 } }, {}]\<close>.\<close>

definition constraintsToTry_initial :: "constraint_set list" where
  "constraintsToTry_initial =
     [\<lparr>min_width = Some 1024, facingMode = None, deviceId = None\<rparr>,
      \<lparr>min_width = Some 768, facingMode = None, deviceId = None\<rparr>,
      \<lparr>min_width = None, facingMode = None, deviceId = None\<rparr>]"

text \<open>\<open>constraint[preferenceType] = preferredCamera\<close>.\<close>

definition annotate :: "string \<Rightarrow> bool \<Rightarrow> constraint_set \<Rightarrow> constraint_set" where
  "annotate pref exact c =
     (let v = (if exact then Exact pref else Soft pref)
      in if pref = ''environment'' \<or> pref = ''user''
         then c\<lparr>facingMode := Some v\<rparr>
         else c\<lparr>deviceId := Some v\<rparr>)"

text \<open>
  The list \<open>_getCameraStream\<close> builds. The preference is absent (\<open>None\<close>) when the
  method is called without arguments; an absent or empty preference is falsy and
  annotates nothing.
\<close>

definition constraintsToTry :: "string option \<Rightarrow> bool \<Rightarrow> constraint_set list" where
  "constraintsToTry pref exact =
     (case pref of
        None \<Rightarrow> constraintsToTry_initial
      | Some p \<Rightarrow>
          if p = [] then constraintsToTry_initial
          else map (annotate p exact) constraintsToTry_initial)"

text \<open>
  \<open>_getMatchingCameraStream\<close>: the result, and the constraint sets handed to
  \<open>getUserMedia\<close>, in order.
\<close>

function getMatchingCameraStream ::
  "platform \<Rightarrow> constraint_set list \<Rightarrow> (js_error + stream) \<times> constraint_set list" where
  "getMatchingCameraStream P cs =
     (if \<not> mediaDevices P \<or> length cs = 0 then (Inl CameraNotFound, [])
      else case getUserMedia P (hd cs) of
             Inr s \<Rightarrow> (Inr s, [hd cs])
           | Inl e \<Rightarrow>
               (let (r, tried) = getMatchingCameraStream P (tl cs) in (r, hd cs # tried)))"
  by pat_completeness auto
termination
  by (relation "measure (\<lambda>(P, cs). length cs)") auto

declare getMatchingCameraStream.simps [simp del]

definition getCameraStream ::
  "platform \<Rightarrow> string option \<Rightarrow> bool \<Rightarrow> (js_error + stream) \<times> constraint_set list" where
  "getCameraStream P pref exact = getMatchingCameraStream P (constraintsToTry pref exact)"

section \<open>One-shot decode: \<open>scanImage\<close>\<close>

text \<open>
  What a call does to decode engines: the messages it posts to workers and the
  \<open>detect\<close> calls it makes, in order, and the engines it created.
\<close>

datatype worker_message = InversionMode string | Decode canvas | Close

datatype engine_call = PostMessage nat worker_message | Detect nat canvas

record world =
  created :: "engine list"
  calls :: "engine_call list"

text \<open>
  \<open>createQrEngine\<close>: a detector when the browser has one that supports
  \<open>'qr_code'\<close>, a new worker otherwise. The new engine is numbered by the count of
  engines created before it.
\<close>

definition createQrEngine :: "platform \<Rightarrow> world \<Rightarrow> engine \<times> world" where
  "createQrEngine P w =
     (let fmts = (case supportedFormats P of None \<Rightarrow> [] | Some fs \<Rightarrow> fs);
          e = \<lparr>engine_id = length (created w),
               engine_kind = (if ''qr_code'' \<in> set fmts then NativeDetector else WorkerEngine)\<rparr>
      in (e, w\<lparr>created := created w @ [e]\<rparr>))"

text \<open>
  \<open>_postWorkerMessage(qrEngine, type)\<close>: nothing is posted unless the engine is a
  worker; \<open>qrEngine\<close> may be \<open>null\<close>.
\<close>

definition postWorkerMessage :: "engine option \<Rightarrow> worker_message \<Rightarrow> world \<Rightarrow> world" where
  "postWorkerMessage qrEngine m w =
     (case qrEngine of
        None \<Rightarrow> w
      | Some e \<Rightarrow>
          if engine_kind e = WorkerEngine
          then w\<lparr>calls := calls w @ [PostMessage (engine_id e) m]\<rparr>
          else w)"

text \<open>
  A promise of the one-shot decode settles with a value or a rejection, or it never
  settles: \<open>None\<close>. \<open>_awaitImageLoad\<close> resolves at once for a loaded image and
  otherwise waits for the load or the error event.
\<close>

definition awaitImageLoad :: "image_state \<Rightarrow> (js_error + unit) option" where
  "awaitImageLoad st =
     (case st of
        AlreadyLoaded \<Rightarrow> Some (Inr ())
      | LoadFires \<Rightarrow> Some (Inr ())
      | ErrorFires \<Rightarrow> Some (Inl ImageLoadError)
      | NothingFires \<Rightarrow> None)"

text \<open>
  \<open>_loadImage\<close>. For a \<open>File\<close>, a \<open>Blob\<close>, a \<open>URL\<close> or a string the image is
  new, and the browser fires its load event or its error event.
\<close>

definition loadImage :: "platform \<Rightarrow> image_source \<Rightarrow> (js_error + image) option" where
  "loadImage P src =
     (case src of
        Drawable img \<Rightarrow> Some (Inr img)
      | ImageElement img st \<Rightarrow>
          (case awaitImageLoad st of
             None \<Rightarrow> None
           | Some (Inl e) \<Rightarrow> Some (Inl e)
           | Some (Inr _) \<Rightarrow> Some (Inr img))
      | Resource u \<Rightarrow>
          (case fetchImage P u of
             None \<Rightarrow> Some (Inl ImageLoadError)
           | Some img \<Rightarrow> Some (Inr img))
      | Unsupported \<Rightarrow> Some (Inl UnsupportedImageType))"

text \<open>
  How the two promises inside the callback of \<open>Promise.all\<close> settle, by what the
  engine answers: \<open>resolve(event.data.data)\<close>, \<open>reject(NO_QR_CODE_FOUND)\<close>,
  \<open>reject('Scanner error: ' + errorMessage)\<close> and the timeout for a worker;
  \<open>resolve(scanResults[0].rawValue)\<close> and the same rejections for a detector. The
  error text is \<open>e.message || e\<close>: an error event without a message is itself
  appended, as \<open>[object ErrorEvent]\<close>.
\<close>

definition worker_outcome :: "worker_reply \<Rightarrow> js_error + string" where
  "worker_outcome reply =
     (case reply of
        QrResult (Some d) \<Rightarrow> Inr d
      | QrResult None \<Rightarrow> Inl NoQrCodeFound
      | WorkerError m \<Rightarrow>
          Inl (ScannerError (if m = [] then ''[object ErrorEvent]'' else m))
      | WorkerSilent \<Rightarrow> Inl (ScannerError ''timeout''))"

definition detector_outcome :: "detector_reply \<Rightarrow> js_error + string" where
  "detector_outcome reply =
     (case reply of
        Detected [] \<Rightarrow> Inl NoQrCodeFound
      | Detected (r # rs) \<Rightarrow> Inr r
      | DetectError m txt \<Rightarrow> Inl (ScannerError (if m = [] then txt else m))
      | DetectorSilent \<Rightarrow> Inl (ScannerError ''timeout''))"

definition decode_outcome :: "platform \<Rightarrow> engine \<Rightarrow> canvas \<Rightarrow> js_error + string" where
  "decode_outcome P qrEngine c =
     (case engine_kind qrEngine of
        WorkerEngine \<Rightarrow> worker_outcome (worker_reply P qrEngine c)
      | NativeDetector \<Rightarrow> detector_outcome (detector_reply P qrEngine c))"

text \<open>
  The round trip to the engine, after the canvas is drawn. A worker the call created
  itself is first told to scan inverted codes too; then the bitmap is posted to the
  worker, or the detector is called on the canvas.
\<close>

definition decode ::
  "platform \<Rightarrow> engine \<Rightarrow> bool \<Rightarrow> canvas \<Rightarrow> world \<Rightarrow> (js_error + string) \<times> world" where
  "decode P qrEngine gotExternalWorker c w =
     (case engine_kind qrEngine of
        WorkerEngine \<Rightarrow>
          (let w1 = (if \<not> gotExternalWorker
                     then w\<lparr>calls := calls w @
                            [PostMessage (engine_id qrEngine) (InversionMode ''both'')]\<rparr>
                     else w)
           in (decode_outcome P qrEngine c,
               w1\<lparr>calls := calls w1 @ [PostMessage (engine_id qrEngine) (Decode c)]\<rparr>))
      | NativeDetector \<Rightarrow>
          (decode_outcome P qrEngine c,
           w\<lparr>calls := calls w @ [Detect (engine_id qrEngine) c]\<rparr>))"

text \<open>
  The first promise of \<open>scanImage\<close>: \<open>Promise.all([qrEngine || createQrEngine(),
  _loadImage(...)]).then(...)\<close>. An engine is created whenever none was given, whether
  the image loads or not. The callback assigns the variables \<open>qrEngine\<close> and
  \<open>canvas\<close>, which the later callbacks read; when the image does not load the
  callback does not run and both keep the values the caller gave. The result is the
  outcome, \<open>None\<close> when the promise never settles, together with the two variables.
\<close>

definition scanImage_attempt ::
  "platform \<Rightarrow> image_source \<Rightarrow> scan_region option \<Rightarrow> engine option \<Rightarrow> canvas option \<Rightarrow>
   bool \<Rightarrow> bool \<Rightarrow> world \<Rightarrow>
   ((js_error + string) option \<times> engine option \<times> canvas option) \<times> world" where
  "scanImage_attempt P src scanRegion qrEngine canvas disallowCanvasResizing
     gotExternalWorker w =
     (let (e, w1) = (case qrEngine of None \<Rightarrow> createQrEngine P w | Some e \<Rightarrow> (e, w))
      in case loadImage P src of
           None \<Rightarrow> ((None, qrEngine, canvas), w1)
         | Some (Inl err) \<Rightarrow> ((Some (Inl err), qrEngine, canvas), w1)
         | Some (Inr img) \<Rightarrow>
             (let c = drawToCanvas img scanRegion canvas disallowCanvasResizing;
                  (r, w2) = decode P e gotExternalWorker c w1
              in ((Some r, Some e, Some c), w2)))"

text \<open>
  \<open>scanImage(imageOrFileOrUrl, scanRegion, qrEngine, canvas, disallowCanvasResizing,
  alsoTryWithoutScanRegion)\<close>. The retry is the recursive call of the source, with no
  region and \<open>alsoTryWithoutScanRegion\<close> left at its default \<open>false\<close>. The callbacks
  of \<open>catch\<close> and \<open>finally\<close> run only when the promise before them settles.
\<close>

function scanImage ::
  "platform \<Rightarrow> image_source \<Rightarrow> scan_region option \<Rightarrow> engine option \<Rightarrow> canvas option \<Rightarrow>
   bool \<Rightarrow> bool \<Rightarrow> world \<Rightarrow> (js_error + string) option \<times> world" where
  "scanImage P src scanRegion qrEngine canvas disallowCanvasResizing
     alsoTryWithoutScanRegion w =
     (let gotExternalWorker =
            (case qrEngine of None \<Rightarrow> False | Some e \<Rightarrow> engine_kind e = WorkerEngine);
          first = scanImage_attempt P src scanRegion qrEngine canvas disallowCanvasResizing
                    gotExternalWorker w;
          qrEngine1 = fst (snd (fst first));
          canvas1 = snd (snd (fst first));
          second =
            (if scanRegion \<noteq> None \<and> alsoTryWithoutScanRegion
             then (case fst (fst first) of
                     None \<Rightarrow> (None, snd first)
                   | Some (Inr v) \<Rightarrow> (Some (Inr v), snd first)
                   | Some (Inl err) \<Rightarrow>
                       scanImage P src None qrEngine1 canvas1 disallowCanvasResizing False
                         (snd first))
             else (fst (fst first), snd first))
      in (fst second,
          if fst second = None \<or> gotExternalWorker then snd second
          else postWorkerMessage qrEngine1 Close (snd second)))"
  by pat_completeness auto
termination
  by (relation "measure (\<lambda>(P, src, scanRegion, qrEngine, canvas, d, alsoTry, w).
         if scanRegion \<noteq> None \<and> alsoTry then 1 else 0)") auto

declare scanImage.simps [simp del]

text \<open>The decode requests among the calls made to engines: the engine and the canvas.\<close>

fun decode_request :: "engine_call \<Rightarrow> (nat \<times> canvas) option" where
  "decode_request (PostMessage i (Decode c)) = Some (i, c)"
| "decode_request (PostMessage i (InversionMode m)) = None"
| "decode_request (PostMessage i Close) = None"
| "decode_request (Detect i c) = Some (i, c)"

definition decode_requests :: "world \<Rightarrow> (nat \<times> canvas) list" where
  "decode_requests w = List.map_filter decode_request (calls w)"

text \<open>The engines that were told to close, in order.\<close>

fun close_request :: "engine_call \<Rightarrow> nat option" where
  "close_request (PostMessage i Close) = Some i"
| "close_request (PostMessage i (InversionMode m)) = None"
| "close_request (PostMessage i (Decode c)) = None"
| "close_request (Detect i c) = None"

definition close_requests :: "world \<Rightarrow> nat list" where
  "close_requests w = List.map_filter close_request (calls w)"

section \<open>The scanner\<close>

text \<open>
  Each method of the class is modelled together with the promise callbacks it
  registers, as one step: \<open>start\<close> with the acquisition of the stream, \<open>_setFlash\<close>
  with the capability query, \<open>setCamera\<close> with the restart. The callbacks whose timing
  the scanner depends on are steps of their own: the timeout of \<open>pause\<close>, the animation
  frame of \<open>_scanFrame\<close> and the settling of a decode round trip. Console output is
  left out.
\<close>

text \<open>
  The video element: the stream it plays, its \<open>paused\<close>, \<open>ended\<close> and
  \<open>readyState\<close> attributes, and whether \<open>_setVideoMirror\<close> has mirrored it.
\<close>

record video =
  srcObject :: "stream option"
  video_paused :: bool
  video_ended :: bool
  readyState :: nat
  mirrored :: bool

text \<open>
  What the scanner does to the outside, in order: track and video calls, camera
  requests, timers and animation frames it asks for, decode round trips it starts, and
  the calls of the two handlers the user configured.
\<close>

datatype event =
    TrackStop nat
  | RemoveTrack nat nat
  | VideoPause
  | VideoPlay
  | GetUserMedia constraint_set
  | TorchSet nat bool
  | SetTimeout nat
  | RequestAnimationFrame
  | ScanImage
  | CreateQrEngine
  | OnDecode string
  | OnDecodeError js_error

text \<open>
  A scanner: the fields \<open>_preferredCamera\<close>, \<open>_active\<close>, \<open>_paused\<close>, \<open>_flashOn\<close>
  and \<open>$video\<close> of the class, and the part of the event loop that belongs to it:
  \<^item> \<open>now\<close>, the time in milliseconds, and \<open>timers\<close>, the times at which the pending
    timeouts of \<open>pause\<close> are due, in the order they were set;
  \<^item> \<open>frames\<close>, the number of pending \<open>requestAnimationFrame\<close> callbacks of
    \<open>_scanFrame\<close>, and \<open>scans\<close>, the number of decode round trips in flight;
  \<^item> \<open>trace\<close>, the events so far.
  The two handlers are the user's code; of each the model knows whether it throws on a
  given argument.
\<close>

record scanner =
  preferredCamera :: string
  active :: bool
  paused :: bool
  flashOn :: bool
  video :: video
  now :: nat
  timers :: "nat list"
  frames :: nat
  scans :: nat
  trace :: "event list"
  onDecode_throws :: "string \<Rightarrow> bool"
  onDecodeError_throws :: "js_error \<Rightarrow> bool"

text \<open>
  The constructor, for a video element that plays nothing yet. The default error
  handler \<open>_onDecodeError\<close> never throws.
\<close>

definition new_scanner :: "string \<Rightarrow> scanner" where
  "new_scanner pref =
     \<lparr>preferredCamera = pref, active = False, paused = False, flashOn = False,
      video = \<lparr>srcObject = None, video_paused = True, video_ended = False, readyState = 0,
               mirrored = False\<rparr>,
      now = 0, timers = [], frames = 0, scans = 0, trace = [],
      onDecode_throws = (\<lambda>_. False), onDecodeError_throws = (\<lambda>_. False)\<rparr>"

definition emit :: "event list \<Rightarrow> scanner \<Rightarrow> scanner" where
  "emit es s = s\<lparr>trace := trace s @ es\<rparr>"

text \<open>\<open>this.$video.pause()\<close> and \<open>this.$video.play()\<close>.\<close>

definition video_pause :: "scanner \<Rightarrow> scanner" where
  "video_pause s = emit [VideoPause] (s\<lparr>video := (video s)\<lparr>video_paused := True\<rparr>\<rparr>)"

definition video_play :: "scanner \<Rightarrow> scanner" where
  "video_play s = emit [VideoPlay] (s\<lparr>video := (video s)\<lparr>video_paused := False\<rparr>\<rparr>)"

subsection \<open>\<open>pause\<close> and \<open>stop\<close>\<close>

text \<open>
  The closure \<open>stopStream\<close> of \<open>pause\<close>: every track of the stream is stopped and
  removed, then the video is detached from the stream.
\<close>

definition stopStream :: "scanner \<Rightarrow> scanner" where
  "stopStream s =
     (let tracks = (case srcObject (video s) of
                      None \<Rightarrow> []
                    | Some st \<Rightarrow>
                        concat (map (\<lambda>t. [TrackStop (track_id t),
                                           RemoveTrack (stream_id st) (track_id t)])
                                 (stream_tracks st)))
      in (emit tracks s)\<lparr>video := (video s)\<lparr>srcObject := None\<rparr>\<rparr>)"

text \<open>
  The promise \<open>pause\<close> returns is settled at once, or it is settled by the timeout.
\<close>

datatype pause_result = Settled bool | Deferred

definition pause :: "bool \<Rightarrow> scanner \<Rightarrow> pause_result \<times> scanner" where
  "pause stopStreamImmediately s =
     (let s1 = s\<lparr>paused := True\<rparr>
      in if \<not> active s1 then (Settled True, s1)
         else let s2 = video_pause s1
              in if stopStreamImmediately then (Settled True, stopStream s2)
                 else (Deferred,
                       emit [SetTimeout 300] (s2\<lparr>timers := timers s2 @ [now s2 + 300]\<rparr>)))"

text \<open>
  The callback \<open>pause\<close> gives to its timeout: \<open>if (!this._paused) return false;
  stopStream(); return true;\<close>.
\<close>

definition pause_timeout :: "scanner \<Rightarrow> bool \<times> scanner" where
  "pause_timeout s = (if \<not> paused s then (False, s) else (True, stopStream s))"

text \<open>\<open>stop\<close> calls \<open>this.pause()\<close>, without an argument.\<close>

definition stop :: "scanner \<Rightarrow> scanner" where
  "stop s = (snd (pause False s))\<lparr>active := False\<rparr>"

text \<open>
  Time passes: \<open>wait dt\<close> lets \<open>dt\<close> milliseconds go by. The timeouts that fall due
  run in the order they were set; nothing else of the scanner runs meanwhile.
\<close>

definition wait :: "nat \<Rightarrow> scanner \<Rightarrow> scanner" where
  "wait dt s =
     (let t = now s + dt;
          due = filter (\<lambda>d. d \<le> t) (timers s);
          s1 = fold (\<lambda>d. \<lambda>s'. snd (pause_timeout s')) due s
      in s1\<lparr>now := t, timers := filter (\<lambda>d. \<not> d \<le> t) (timers s)\<rparr>)"

subsection \<open>Flash\<close>

text \<open>\<open>this.$video.srcObject ? this.$video.srcObject.getVideoTracks()[0] : null\<close>.\<close>

definition videoTrack :: "scanner \<Rightarrow> track option" where
  "videoTrack s =
     (case srcObject (video s) of
        None \<Rightarrow> None
      | Some st \<Rightarrow>
          (case filter (\<lambda>t. track_kind t = VideoTrack) (stream_tracks st) of
             [] \<Rightarrow> None
           | t # ts \<Rightarrow> Some t))"

definition hasFlash :: "platform \<Rightarrow> scanner \<Rightarrow> js_error + bool" where
  "hasFlash P s =
     (if \<not> imageCapture P then Inr False
      else case videoTrack s of
             None \<Rightarrow> Inl CameraNotStarted
           | Some t \<Rightarrow>
               (case photoCapabilities P t of
                  None \<Rightarrow> Inr False
                | Some modes \<Rightarrow> Inr (''flash'' \<in> set modes)))"

text \<open>
  \<open>_setFlash(on)\<close> with its two callbacks. Reading the track of a video without a
  stream in the first callback would throw a \<open>TypeError\<close>.
\<close>

definition setFlash :: "platform \<Rightarrow> bool \<Rightarrow> scanner \<Rightarrow> (js_error + unit) \<times> scanner" where
  "setFlash P on s =
     (let s1 = s\<lparr>flashOn := on\<rparr>
      in if on \<and> (\<not> active s1 \<or> paused s1) then (Inr (), s1)
         else case (case hasFlash P s1 of
                      Inl e \<Rightarrow> Inl e
                    | Inr has \<Rightarrow>
                        if \<not> has then Inl NoFlashAvailable
                        else (case videoTrack s1 of
                                None \<Rightarrow> Inl (PlatformError ''TypeError'')
                              | Some t \<Rightarrow>
                                  (case applyConstraints P t on of
                                     Some e \<Rightarrow> Inl e
                                   | None \<Rightarrow> Inr t))) of
                Inr t \<Rightarrow> (Inr (), emit [TorchSet (track_id t) on] s1)
              | Inl e \<Rightarrow> (Inl e, s1\<lparr>flashOn := \<not> on\<rparr>))"

definition toggleFlash :: "platform \<Rightarrow> scanner \<Rightarrow> (js_error + unit) \<times> scanner" where
  "toggleFlash P s = setFlash P (\<not> flashOn s) s"

definition turnFlashOff :: "platform \<Rightarrow> scanner \<Rightarrow> (js_error + unit) \<times> scanner" where
  "turnFlashOff P s = setFlash P False s"

definition turnFlashOn :: "platform \<Rightarrow> scanner \<Rightarrow> (js_error + unit) \<times> scanner" where
  "turnFlashOn P s = setFlash P True s"

subsection \<open>\<open>start\<close>\<close>

text \<open>\<open>String.prototype.indexOf(p) !== -1\<close> on byte strings.\<close>

fun starts_with :: "string \<Rightarrow> string \<Rightarrow> bool" where
  "starts_with [] ys = True"
| "starts_with (x # xs) [] = False"
| "starts_with (x # xs) (y # ys) = (x = y \<and> starts_with xs ys)"

fun has_substring :: "string \<Rightarrow> string \<Rightarrow> bool" where
  "has_substring p [] = (p = [])"
| "has_substring p (y # ys) = (starts_with p (y # ys) \<or> has_substring p ys)"

text \<open>The flag \<open>i\<close> of the two regular expressions: ASCII letters are compared in lower case.\<close>

definition lower :: "char \<Rightarrow> char" where
  "lower c =
     (if (65::nat) \<le> of_char c \<and> of_char c \<le> (90::nat)
      then char_of (of_char c + (32::nat)) else c)"

definition label_matches :: "string list \<Rightarrow> string \<Rightarrow> bool" where
  "label_matches words label = list_ex (\<lambda>w. has_substring w (map lower label)) words"

definition getFacingMode :: "stream \<Rightarrow> string option" where
  "getFacingMode videoStream =
     (case filter (\<lambda>t. track_kind t = VideoTrack) (stream_tracks videoStream) of
        [] \<Rightarrow> None
      | t # ts \<Rightarrow>
          if label_matches [''rear'', ''back'', ''environment''] (track_label t)
          then Some ''environment''
          else if label_matches [''front'', ''user'', ''face''] (track_label t)
          then Some ''user''
          else None)"

definition setVideoMirror :: "string \<Rightarrow> scanner \<Rightarrow> scanner" where
  "setVideoMirror mode s = s\<lparr>video := (video s)\<lparr>mirrored := (mode = ''user'')\<rparr>\<rparr>"

text \<open>
  The callback of \<open>start\<close> that receives the stream; \<open>guess\<close> is \<open>facingModeGuess\<close>.
  The rejection of \<open>turnFlashOn\<close> is swallowed.
\<close>

definition start_then :: "platform \<Rightarrow> stream \<Rightarrow> string option \<Rightarrow> scanner \<Rightarrow> scanner" where
  "start_then P st guess s =
     (let mode = (case getFacingMode st of
                    Some m \<Rightarrow> m
                  | None \<Rightarrow> (case guess of Some g \<Rightarrow> g | None \<Rightarrow> ''environment''));
          s1 = s\<lparr>video := (video s)\<lparr>srcObject := Some st\<rparr>\<rparr>;
          s2 = setVideoMirror mode (video_play s1)
      in if flashOn s2 then snd (turnFlashOn P s2) else s2)"

text \<open>
  The promise chain of \<open>start\<close>: the exact request, on failure the request without
  any preference, then \<open>start_then\<close>, and on failure of both the final \<open>catch\<close>.
\<close>

definition start_acquire :: "platform \<Rightarrow> scanner \<Rightarrow> (js_error + unit) \<times> scanner" where
  "start_acquire P s =
     (let guess0 = (if preferredCamera s = ''environment'' \<or> preferredCamera s = ''user''
                    then Some (preferredCamera s) else None);
          (r1, tried1) = getCameraStream P (Some (preferredCamera s)) True
      in case r1 of
           Inr st \<Rightarrow> (Inr (), start_then P st guess0 (emit (map GetUserMedia tried1) s))
         | Inl e1 \<Rightarrow>
             (let guess1 = (if guess0 = Some ''environment'' then ''user'' else ''environment'');
                  (r2, tried2) = getCameraStream P None False;
                  s1 = emit (map GetUserMedia (tried1 @ tried2)) s
              in case r2 of
                   Inr st \<Rightarrow> (Inr (), start_then P st (Some guess1) s1)
                 | Inl e2 \<Rightarrow> (Inl e2, s1\<lparr>active := False\<rparr>)))"

definition start :: "platform \<Rightarrow> scanner \<Rightarrow> (js_error + unit) \<times> scanner" where
  "start P s =
     (if active s \<and> \<not> paused s then (Inr (), s)
      else let s1 = s\<lparr>active := True\<rparr>
           in if document_hidden P then (Inr (), s1)
              else let s2 = s1\<lparr>paused := False\<rparr>
                   in case srcObject (video s2) of
                        Some st \<Rightarrow> (Inr (), video_play s2)
                      | None \<Rightarrow> start_acquire P s2)"

subsection \<open>\<open>setCamera\<close>\<close>

text \<open>
  \<open>pause(true)\<close> always settles at once, so the callback of \<open>setCamera\<close> runs next;
  the case \<open>Deferred\<close> is there for the type only.
\<close>

definition setCamera :: "platform \<Rightarrow> string \<Rightarrow> scanner \<Rightarrow> (js_error + unit) \<times> scanner" where
  "setCamera P facingModeOrDeviceId s =
     (if facingModeOrDeviceId = preferredCamera s then (Inr (), s)
      else let s1 = s\<lparr>preferredCamera := facingModeOrDeviceId\<rparr>;
               wasPaused = paused s1;
               (r, s2) = pause True s1
           in case r of
                Deferred \<Rightarrow> (Inr (), s2)
              | Settled pausedNow \<Rightarrow>
                  if \<not> pausedNow \<or> wasPaused \<or> \<not> active s2 then (Inr (), s2)
                  else start P s2)"

subsection \<open>The scan loop: \<open>_scanFrame\<close>\<close>

text \<open>The text of a rejection, \<open>error.message || error\<close>.\<close>

fun errorMessage :: "js_error \<Rightarrow> string" where
  "errorMessage CameraNotFound = ''Camera not found.''"
| "errorMessage CameraNotStarted = ''Camera not started or not available''"
| "errorMessage NoFlashAvailable = ''No flash available''"
| "errorMessage NoQrCodeFound = ''No QR code found''"
| "errorMessage (ScannerError m) = ''Scanner error: '' @ m"
| "errorMessage ImageLoadError = ''Image load error''"
| "errorMessage UnsupportedImageType = ''Unsupported image type.''"
| "errorMessage (PlatformError m) = m"

text \<open>The synchronous part of \<open>_scanFrame\<close>.\<close>

definition scanFrame :: "scanner \<Rightarrow> scanner" where
  "scanFrame s =
     (if \<not> active s \<or> video_paused (video s) \<or> video_ended (video s) then s
      else emit [RequestAnimationFrame] (s\<lparr>frames := Suc (frames s)\<rparr>))"

text \<open>
  The callback given to \<open>requestAnimationFrame\<close>, run when the browser paints a frame:
  it polls again while the video is not ready, and starts a decode round trip otherwise.
  The round trip is \<open>scanImage\<close> on the video, the scan region, the scanner's engine
  and its canvas; here only its start is recorded, and its outcome is what
  \<open>onScanSettled\<close> is given. The browser runs the callback only if one is pending.
\<close>

definition onAnimationFrame :: "scanner \<Rightarrow> scanner" where
  "onAnimationFrame s =
     (if frames s = 0 then s
      else let s1 = s\<lparr>frames := frames s - 1\<rparr>
           in if readyState (video s1) \<le> 1 then scanFrame s1
              else emit [ScanImage] (s1\<lparr>scans := Suc (scans s1)\<rparr>))"

text \<open>
  The two callbacks behind the round trip,
  \<open>.then(this._onDecode, (error) => {...}).then(() => this._scanFrame())\<close>, run when the
  round trip settles with \<open>r\<close>. When a handler throws, the second \<open>then\<close> is skipped.
  So it is when the error is an object without a message: \<open>error.message || error\<close> is
  then the object, and calling \<open>indexOf\<close> on it throws. Nothing settles unless a round
  trip is in flight.
\<close>

definition onScanSettled :: "js_error + string \<Rightarrow> scanner \<Rightarrow> scanner" where
  "onScanSettled r s =
     (if scans s = 0 then s
      else let s0 = s\<lparr>scans := scans s - 1\<rparr>
           in case r of
                Inr payload \<Rightarrow>
                  (let s1 = emit [OnDecode payload] s0
                   in if onDecode_throws s1 payload then s1 else scanFrame s1)
              | Inl error \<Rightarrow>
                  if \<not> active s0 then scanFrame s0
                  else if error = PlatformError [] then s0
                  else let s1 = (if has_substring ''service unavailable'' (errorMessage error)
                                 then emit [CreateQrEngine] s0 else s0);
                           s2 = emit [OnDecodeError error] s1
                       in if onDecodeError_throws s2 error then s2 else scanFrame s2)"

text \<open>\<open>_onPlay\<close>, the listener of the video's \<open>play\<close> event, starts the loop.\<close>

definition onPlay :: "scanner \<Rightarrow> scanner" where
  "onPlay s = scanFrame s"

text \<open>\<open>_onVisibilityChange\<close>, for the platform as it is after the change.\<close>

definition onVisibilityChange :: "platform \<Rightarrow> scanner \<Rightarrow> scanner" where
  "onVisibilityChange P s =
     (if document_hidden P then snd (pause False s)
      else if active s then snd (start P s) else s)"

subsection \<open>Sequences of calls\<close>

text \<open>
  A history of a scanner: calls of its public methods, the passing of time, and the
  settling of a decode round trip.
\<close>

datatype call =
    Start
  | Stop
  | Pause bool
  | SetCamera string
  | SetFlash bool
  | Wait nat
  | Play
  | AnimationFrame
  | ScanSettled "js_error + string"

fun step :: "platform \<Rightarrow> call \<Rightarrow> scanner \<Rightarrow> scanner" where
  "step P Start s = snd (start P s)"
| "step P Stop s = stop s"
| "step P (Pause immediately) s = snd (pause immediately s)"
| "step P (SetCamera c) s = snd (setCamera P c s)"
| "step P (SetFlash on) s = snd (setFlash P on s)"
| "step P (Wait dt) s = wait dt s"
| "step P Play s = onPlay s"
| "step P AnimationFrame s = onAnimationFrame s"
| "step P (ScanSettled r) s = onScanSettled r s"

definition run :: "platform \<Rightarrow> call list \<Rightarrow> scanner \<Rightarrow> scanner" where
  "run P cs s = fold (step P) cs s"

text \<open>The time that passes in a history.\<close>

fun waited :: "call \<Rightarrow> nat" where
  "waited (Wait dt) = dt"
| "waited c = 0"

definition elapsed :: "call list \<Rightarrow> nat" where
  "elapsed cs = sum_list (map waited cs)"

text \<open>Histories in which nothing happens but calls of \<open>pause()\<close> and the passing of time.\<close>

fun pause_or_wait :: "call \<Rightarrow> bool" where
  "pause_or_wait (Pause immediately) = (\<not> immediately)"
| "pause_or_wait (Wait dt) = True"
| "pause_or_wait c = False"

section \<open>Example values\<close>

text \<open>
  A browser with one rear camera that cannot deliver 1024 pixels of width, a torch, no
  native detector, and a worker that finds the payload \<open>ABC123\<close> only when it is
  given the whole frame of 640 by 480 pixels.
\<close>

definition example_track :: track where
  "example_track = \<lparr>track_id = 1, track_kind = VideoTrack, track_label = ''Back Camera''\<rparr>"

definition example_stream :: stream where
  "example_stream = \<lparr>stream_id = 7, stream_tracks = [example_track]\<rparr>"

definition example_platform :: platform where
  "example_platform =
     \<lparr>mediaDevices = True,
      getUserMedia = (\<lambda>c. if min_width c = Some 1024
                           then Inl (PlatformError ''OverconstrainedError'')
                           else Inr example_stream),
      document_hidden = False,
      imageCapture = True,
      photoCapabilities = (\<lambda>t. Some [''off'', ''flash'']),
      applyConstraints = (\<lambda>t on. None),
      supportedFormats = None,
      fetchImage = (\<lambda>u. None),
      worker_reply = (\<lambda>e c. case canvas_content c of
                                None \<Rightarrow> QrResult None
                              | Some b \<Rightarrow> if bm_sw b = Some 640 then QrResult (Some ''ABC123'')
                                          else QrResult None),
      detector_reply = (\<lambda>e c. Detected [])\<rparr>"

text \<open>
  The same browser with a camera that meets no request for a facing mode or a device,
  so that only the request without a preference succeeds.
\<close>

definition example_platform_plain :: platform where
  "example_platform_plain =
     example_platform\<lparr>getUserMedia :=
       (\<lambda>c. if facingMode c \<noteq> None \<or> deviceId c \<noteq> None
            then Inl (PlatformError ''OverconstrainedError'')
            else Inr example_stream)\<rparr>"

definition example_frame :: image where
  "example_frame =
     \<lparr>image_id = 0, image_width = Some 0, image_videoWidth = Some 640,
      image_height = Some 0, image_videoHeight = Some 480\<rparr>"

definition example_region :: scan_region where
  "example_region =
     \<lparr>region_x = Some 160, region_y = Some 80, region_width = Some 320,
      region_height = Some 320, downScaledWidth = Some 400, downScaledHeight = Some 400\<rparr>"

text \<open>The same region with a downscale target beyond what a canvas attribute stores.\<close>

definition example_region_huge :: scan_region where
  "example_region_huge =
     example_region\<lparr>downScaledWidth := Some 4294967297, downScaledHeight := Some 2147483648\<rparr>"

text \<open>A scanner that was started on the example browser and is scanning.\<close>

definition example_scanning :: scanner where
  "example_scanning = run example_platform [Start, Play] (new_scanner ''environment'')"

text \<open>The same scanner once its video has buffered a frame.\<close>

definition example_ready :: scanner where
  "example_ready = example_scanning\<lparr>video := (video example_scanning)\<lparr>readyState := 4\<rparr>\<rparr>"

definition empty_world :: world where
  "empty_world = \<lparr>created = [], calls = []\<rparr>"

section \<open>The example scanner\<close>

lemma example_getCameraStream:
  "getCameraStream example_platform (Some ''environment'') True =
     (Inr example_stream,
      [\<lparr>min_width = Some 1024, facingMode = Some (Exact ''environment''), deviceId = None\<rparr>,
       \<lparr>min_width = Some 768, facingMode = Some (Exact ''environment''), deviceId = None\<rparr>])"
  by (simp add: getCameraStream_def constraintsToTry_def constraintsToTry_initial_def
        annotate_def getMatchingCameraStream.simps example_platform_def)

lemma example_getFacingMode: "getFacingMode example_stream = Some ''environment''"
  by code_simp

lemma example_scanning_eq:
  "example_scanning =
     \<lparr>preferredCamera = ''environment'', active = True, paused = False, flashOn = False,
      video = \<lparr>srcObject = Some example_stream, video_paused = False, video_ended = False,
               readyState = 0, mirrored = False\<rparr>,
      now = 0, timers = [], frames = 1, scans = 0,
      trace = [GetUserMedia \<lparr>min_width = Some 1024, facingMode = Some (Exact ''environment''),
                             deviceId = None\<rparr>,
               GetUserMedia \<lparr>min_width = Some 768, facingMode = Some (Exact ''environment''),
                             deviceId = None\<rparr>,
               VideoPlay, RequestAnimationFrame],
      onDecode_throws = (\<lambda>_. False), onDecodeError_throws = (\<lambda>_. False)\<rparr>"
proof -
  have hidden: "\<not> document_hidden example_platform"
    by (simp add: example_platform_def)
  have started: "snd (start example_platform (new_scanner ''environment'')) =
     \<lparr>preferredCamera = ''environment'', active = True, paused = False, flashOn = False,
      video = \<lparr>srcObject = Some example_stream, video_paused = False, video_ended = False,
               readyState = 0, mirrored = False\<rparr>,
      now = 0, timers = [], frames = 0, scans = 0,
      trace = [GetUserMedia \<lparr>min_width = Some 1024, facingMode = Some (Exact ''environment''),
                             deviceId = None\<rparr>,
               GetUserMedia \<lparr>min_width = Some 768, facingMode = Some (Exact ''environment''),
                             deviceId = None\<rparr>,
               VideoPlay],
      onDecode_throws = (\<lambda>_. False), onDecodeError_throws = (\<lambda>_. False)\<rparr>"
    using hidden
    by (simp add: start_def new_scanner_def Let_def start_acquire_def example_getCameraStream
          start_then_def example_getFacingMode emit_def video_play_def setVideoMirror_def)
  show ?thesis
    by (simp add: example_scanning_def run_def started onPlay_def scanFrame_def emit_def)
qed

lemma example_scanning_facts:
  "active example_scanning"
  "\<not> paused example_scanning"
  "\<not> flashOn example_scanning"
  "preferredCamera example_scanning = ''environment''"
  "srcObject (video example_scanning) = Some example_stream"
  "\<not> video_paused (video example_scanning)"
  "\<not> video_ended (video example_scanning)"
  "now example_scanning = 0"
  "timers example_scanning = []"
  "frames example_scanning = 1"
  "scans example_scanning = 0"
  "trace example_scanning =
     [GetUserMedia \<lparr>min_width = Some 1024, facingMode = Some (Exact ''environment''),
                    deviceId = None\<rparr>,
      GetUserMedia \<lparr>min_width = Some 768, facingMode = Some (Exact ''environment''),
                    deviceId = None\<rparr>,
      VideoPlay, RequestAnimationFrame]"
  "onDecode_throws example_scanning = (\<lambda>_. False)"
  "onDecodeError_throws example_scanning = (\<lambda>_. False)"
  by (simp_all add: example_scanning_eq)

section \<open>Properties of camera acquisition\<close>

lemma getMatchingCameraStream_Nil:
  "getMatchingCameraStream P [] = (Inl CameraNotFound, [])"
  by (simp add: getMatchingCameraStream.simps)

lemma getMatchingCameraStream_Cons:
  "getMatchingCameraStream P (c # cs) =
     (if \<not> mediaDevices P then (Inl CameraNotFound, [])
      else case getUserMedia P c of
             Inr s \<Rightarrow> (Inr s, [c])
           | Inl e \<Rightarrow> (fst (getMatchingCameraStream P cs),
                       c # snd (getMatchingCameraStream P cs)))"
  by (subst getMatchingCameraStream.simps) (simp split: sum.splits prod.splits)

lemma getMatchingCameraStream_no_mediaDevices:
  "\<not> mediaDevices P \<Longrightarrow> getMatchingCameraStream P cs = (Inl CameraNotFound, [])"
  by (subst getMatchingCameraStream.simps) simp

text \<open>
  With a camera subsystem, the constraint sets are tried in order up to the first one
  that \<open>getUserMedia\<close> accepts.
\<close>

lemma getMatchingCameraStream_first:
  assumes "mediaDevices P"
  shows "getMatchingCameraStream P cs =
     (case dropWhile (\<lambda>c. isl (getUserMedia P c)) cs of
        [] \<Rightarrow> (Inl CameraNotFound, cs)
      | c # rest \<Rightarrow> (getUserMedia P c, takeWhile (\<lambda>c. isl (getUserMedia P c)) cs @ [c]))"
proof (induction cs)
  case Nil
  show ?case by (simp add: getMatchingCameraStream_Nil)
next
  case (Cons c cs)
  show ?case
  proof (cases "getUserMedia P c")
    case (Inl e)
    then have unfold: "getMatchingCameraStream P (c # cs) =
        (fst (getMatchingCameraStream P cs), c # snd (getMatchingCameraStream P cs))"
      using assms by (simp add: getMatchingCameraStream_Cons)
    have failed: "isl (getUserMedia P c)"
      using Inl by simp
    show ?thesis
      using unfold failed Cons.IH
      by (cases "dropWhile (\<lambda>c. isl (getUserMedia P c)) cs")
         (simp_all del: dropWhile_eq_Nil_conv)
  next
    case (Inr s)
    then show ?thesis
      using assms by (simp add: getMatchingCameraStream_Cons)
  qed
qed

lemma constraintsToTry_explicit:
  "constraintsToTry pref exact =
     map (\<lambda>w. \<lparr>min_width = w,
               facingMode = (case pref of
                               None \<Rightarrow> None
                             | Some p \<Rightarrow>
                                 if p = ''environment'' \<or> p = ''user''
                                 then Some (if exact then Exact p else Soft p) else None),
               deviceId = (case pref of
                             None \<Rightarrow> None
                           | Some p \<Rightarrow>
                               if p \<noteq> [] \<and> p \<noteq> ''environment'' \<and> p \<noteq> ''user''
                               then Some (if exact then Exact p else Soft p) else None)\<rparr>)
       [Some 1024, Some 768, None]"
  by (cases pref)
     (auto simp: constraintsToTry_def constraintsToTry_initial_def annotate_def Let_def)

text \<open>
  Claim C5. The constraint sets are minimum width 1024, minimum width 768 and no width
  requirement, in this order; a preference that is given is written into each of them,
  under \<open>facingMode\<close> when it is \<open>environment\<close> or \<open>user\<close> and under \<open>deviceId\<close>
  otherwise, as an exact or a soft match. Without a camera subsystem the acquisition
  fails with \<open>CameraNotFound\<close> and asks for nothing. Otherwise the sets are handed to
  \<open>getUserMedia\<close> in order up to the first that succeeds, and the acquisition resolves
  with that stream; when all three fail it fails with \<open>CameraNotFound\<close>.
\<close>

theorem getCameraStream_constraint_fallback:
  fixes P :: platform and pref :: "string option" and exact :: bool
  defines "wanted \<equiv> (case pref of None \<Rightarrow> [] | Some p \<Rightarrow> p)"
  defines "matching \<equiv> (if exact then Exact wanted else Soft wanted)"
  defines "byFacingMode \<equiv> (wanted = ''environment'' \<or> wanted = ''user'')"
  defines "byDeviceId \<equiv> (wanted \<noteq> [] \<and> wanted \<noteq> ''environment'' \<and> wanted \<noteq> ''user'')"
  defines "cs \<equiv> constraintsToTry pref exact"
  defines "fails \<equiv> (\<lambda>c. isl (getUserMedia P c))"
  shows "cs = map (\<lambda>w. \<lparr>min_width = w,
                          facingMode = (if byFacingMode then Some matching else None),
                          deviceId = (if byDeviceId then Some matching else None)\<rparr>)
                [Some 1024, Some 768, None]
       \<and> getCameraStream P pref exact =
           (if \<not> mediaDevices P then (Inl CameraNotFound, [])
            else case dropWhile fails cs of
                   [] \<Rightarrow> (Inl CameraNotFound, cs)
                 | c # rest \<Rightarrow> (getUserMedia P c, takeWhile fails cs @ [c]))"
proof -
  have "cs = map (\<lambda>w. \<lparr>min_width = w,
                          facingMode = (if byFacingMode then Some matching else None),
                          deviceId = (if byDeviceId then Some matching else None)\<rparr>)
                [Some 1024, Some 768, None]"
    unfolding cs_def constraintsToTry_explicit
    by (cases pref) (simp_all add: wanted_def matching_def byFacingMode_def byDeviceId_def)
  moreover have "getCameraStream P pref exact =
           (if \<not> mediaDevices P then (Inl CameraNotFound, [])
            else case dropWhile fails cs of
                   [] \<Rightarrow> (Inl CameraNotFound, cs)
                 | c # rest \<Rightarrow> (getUserMedia P c, takeWhile fails cs @ [c]))"
    unfolding cs_def fails_def getCameraStream_def
    by (simp add: getMatchingCameraStream_first getMatchingCameraStream_no_mediaDevices)
  ultimately show ?thesis by simp
qed

theorem getCameraStream_constraint_fallback_witness:
  "getCameraStream example_platform (Some ''user'') True =
     (Inr example_stream,
      [\<lparr>min_width = Some 1024, facingMode = Some (Exact ''user''), deviceId = None\<rparr>,
       \<lparr>min_width = Some 768, facingMode = Some (Exact ''user''), deviceId = None\<rparr>])"
  using getCameraStream_constraint_fallback [of "Some ''user''" True example_platform]
  by (simp add: example_platform_def)

section \<open>Properties of the canvas sampler\<close>

lemma region_inside_truthy:
  "region_inside r fw fh \<Longrightarrow> truthy (region_width r) \<and> truthy (region_height r)"
  by (auto simp: region_inside_def truthy_def split: option.splits)

lemma drawImage_dims [simp]:
  "canvas_width (drawImage img sx sy sw sh c) = canvas_width c"
  "canvas_height (drawImage img sx sy sw sh c) = canvas_height c"
  "canvas_resets (drawImage img sx sy sw sh c) = canvas_resets c"
  by (simp_all add: drawImage_def)

lemma reflect_ulong_storable: "storable v \<Longrightarrow> Some (reflect_ulong dflt v) = v"
  by (cases v) (simp_all add: storable_def reflect_ulong_def ToUint32_def)

text \<open>
  The dimensions after the guarded block: a dimension that already has the required
  value is left alone, any other is assigned.
\<close>

lemma resize_canvas_width:
  "canvas_width (resize_canvas img scanRegion c) =
     (if Some (canvas_width c) = canvasWidth img scanRegion then canvas_width c
      else reflect_ulong 300 (canvasWidth img scanRegion))"
  by (simp add: resize_canvas_def Let_def set_canvas_width_def set_canvas_height_def)

lemma resize_canvas_height:
  "canvas_height (resize_canvas img scanRegion c) =
     (if Some (canvas_height c) = canvasHeight img scanRegion then canvas_height c
      else reflect_ulong 150 (canvasHeight img scanRegion))"
  by (simp add: resize_canvas_def Let_def set_canvas_width_def set_canvas_height_def)

lemma resize_canvas_resets:
  "canvas_resets (resize_canvas img scanRegion c) =
     canvas_resets c
     + (if Some (canvas_width c) = canvasWidth img scanRegion then 0 else 1)
     + (if Some (canvas_height c) = canvasHeight img scanRegion then 0 else 1)"
  by (simp add: resize_canvas_def Let_def set_canvas_width_def set_canvas_height_def)

lemma canvasWidth_Some:
  "truthy (region_width r) \<Longrightarrow>
   canvasWidth img (Some r) =
     (if truthy (downScaledWidth r) then downScaledWidth r else region_width r)"
  by (simp add: canvasWidth_def scanRegionWidth_def)

lemma canvasHeight_Some:
  "truthy (region_height r) \<Longrightarrow>
   canvasHeight img (Some r) =
     (if truthy (downScaledHeight r) then downScaledHeight r else region_height r)"
  by (simp add: canvasHeight_def scanRegionHeight_def)

text \<open>
  Claim C6, as amended. For a scan region inside the frame, the required size being the
  region's downscale target, or the region's own width or height where no target is
  configured:
  \<^item> when the canvas may be resized, each of width and height is assigned, which clears
    the buffer, only when it differs from the required value; an assigned dimension is
    what the canvas attribute makes of the required value, and a dimension left alone
    has that value already;
  \<^item> so the output buffer has, after drawing, the required size as its width and height
    whenever that is a number the attribute stores as it is, up to 2147483647;
  \<^item> when resizing is disallowed, the buffer keeps the dimensions it was given (300 by
    150 for a buffer the sampler creates) and is never reset.
\<close>

theorem drawToCanvas_buffer_dimensions:
  fixes r :: scan_region and canvas :: "canvas option"
  defines "given \<equiv> (case canvas of None \<Rightarrow> createElement_canvas | Some c \<Rightarrow> c)"
  defines "requiredWidth \<equiv>
             (if truthy (downScaledWidth r) then downScaledWidth r else region_width r)"
  defines "requiredHeight \<equiv>
             (if truthy (downScaledHeight r) then downScaledHeight r else region_height r)"
  assumes inside: "region_inside r frameWidth frameHeight"
  shows "canvas_width (drawToCanvas img (Some r) canvas False) =
           (if Some (canvas_width given) = requiredWidth then canvas_width given
            else reflect_ulong 300 requiredWidth)
       \<and> canvas_height (drawToCanvas img (Some r) canvas False) =
           (if Some (canvas_height given) = requiredHeight then canvas_height given
            else reflect_ulong 150 requiredHeight)
       \<and> (storable requiredWidth \<longrightarrow>
            Some (canvas_width (drawToCanvas img (Some r) canvas False)) = requiredWidth)
       \<and> (storable requiredHeight \<longrightarrow>
            Some (canvas_height (drawToCanvas img (Some r) canvas False)) = requiredHeight)
       \<and> canvas_resets (drawToCanvas img (Some r) canvas False) =
           canvas_resets given
           + (if Some (canvas_width given) = requiredWidth then 0 else 1)
           + (if Some (canvas_height given) = requiredHeight then 0 else 1)
       \<and> canvas_width (drawToCanvas img (Some r) canvas True) = canvas_width given
       \<and> canvas_height (drawToCanvas img (Some r) canvas True) = canvas_height given
       \<and> canvas_resets (drawToCanvas img (Some r) canvas True) = canvas_resets given"
proof -
  from inside have w: "truthy (region_width r)" and h: "truthy (region_height r)"
    by (simp_all add: region_inside_truthy)
  have cw: "canvasWidth img (Some r) = requiredWidth"
    unfolding requiredWidth_def by (rule canvasWidth_Some [OF w])
  have ch: "canvasHeight img (Some r) = requiredHeight"
    unfolding requiredHeight_def by (rule canvasHeight_Some [OF h])
  have allowed: "drawToCanvas img (Some r) canvas False =
      drawImage img (scanRegionX (Some r)) (scanRegionY (Some r))
        (scanRegionWidth img (Some r)) (scanRegionHeight img (Some r))
        (resize_canvas img (Some r) given)"
    by (simp add: drawToCanvas_def given_def)
  have disallowed: "drawToCanvas img (Some r) canvas True =
      drawImage img (scanRegionX (Some r)) (scanRegionY (Some r))
        (scanRegionWidth img (Some r)) (scanRegionHeight img (Some r)) given"
    by (simp add: drawToCanvas_def given_def)
  have width: "canvas_width (drawToCanvas img (Some r) canvas False) =
      (if Some (canvas_width given) = requiredWidth then canvas_width given
       else reflect_ulong 300 requiredWidth)"
    by (simp add: allowed resize_canvas_width cw)
  have height: "canvas_height (drawToCanvas img (Some r) canvas False) =
      (if Some (canvas_height given) = requiredHeight then canvas_height given
       else reflect_ulong 150 requiredHeight)"
    by (simp add: allowed resize_canvas_height ch)
  have storedWidth: "storable requiredWidth \<longrightarrow>
      Some (canvas_width (drawToCanvas img (Some r) canvas False)) = requiredWidth"
    using reflect_ulong_storable [of requiredWidth 300] by (auto simp: width)
  have storedHeight: "storable requiredHeight \<longrightarrow>
      Some (canvas_height (drawToCanvas img (Some r) canvas False)) = requiredHeight"
    using reflect_ulong_storable [of requiredHeight 150] by (auto simp: height)
  have resets: "canvas_resets (drawToCanvas img (Some r) canvas False) =
      canvas_resets given
      + (if Some (canvas_width given) = requiredWidth then 0 else 1)
      + (if Some (canvas_height given) = requiredHeight then 0 else 1)"
    using resize_canvas_resets [of img "Some r" given] by (simp add: allowed cw ch)
  have kept: "canvas_width (drawToCanvas img (Some r) canvas True) = canvas_width given"
    "canvas_height (drawToCanvas img (Some r) canvas True) = canvas_height given"
    "canvas_resets (drawToCanvas img (Some r) canvas True) = canvas_resets given"
    by (simp_all add: disallowed)
  show ?thesis
    using width height storedWidth storedHeight resets kept by blast
qed

theorem drawToCanvas_buffer_dimensions_witness:
  "region_inside example_region 640 480
   \<and> storable (downScaledWidth example_region) \<and> storable (downScaledHeight example_region)
   \<and> canvas_width (drawToCanvas example_frame (Some example_region) None False) = 400
   \<and> canvas_height (drawToCanvas example_frame (Some example_region) None False) = 400
   \<and> canvas_resets (drawToCanvas example_frame (Some example_region) None False) = 2
   \<and> canvas_width (drawToCanvas example_frame (Some example_region) None True) = 300
   \<and> canvas_height (drawToCanvas example_frame (Some example_region) None True) = 150
   \<and> canvas_resets (drawToCanvas example_frame (Some example_region) None True) = 0
   \<and> region_inside example_region_huge 640 480
   \<and> canvas_width (drawToCanvas example_frame (Some example_region_huge) None False) = 1
   \<and> canvas_height (drawToCanvas example_frame (Some example_region_huge) None False) = 150"
proof -
  have inside: "region_inside example_region 640 480"
    by (simp add: region_inside_def example_region_def)
  have huge: "region_inside example_region_huge 640 480"
    by (simp add: region_inside_def example_region_huge_def example_region_def)
  have fits: "storable (downScaledWidth example_region)"
    "storable (downScaledHeight example_region)"
    by (simp_all add: storable_def example_region_def)
  have usual: "canvas_width (drawToCanvas example_frame (Some example_region) None False) = 400
     \<and> canvas_height (drawToCanvas example_frame (Some example_region) None False) = 400
     \<and> canvas_resets (drawToCanvas example_frame (Some example_region) None False) = 2
     \<and> canvas_width (drawToCanvas example_frame (Some example_region) None True) = 300
     \<and> canvas_height (drawToCanvas example_frame (Some example_region) None True) = 150
     \<and> canvas_resets (drawToCanvas example_frame (Some example_region) None True) = 0"
    using fits drawToCanvas_buffer_dimensions [OF inside, of example_frame None]
    by (simp add: example_region_def truthy_def createElement_canvas_def)
  have wrapped: "canvas_width (drawToCanvas example_frame (Some example_region_huge) None False) = 1
     \<and> canvas_height (drawToCanvas example_frame (Some example_region_huge) None False) = 150"
    using drawToCanvas_buffer_dimensions [OF huge, of example_frame None]
    by (simp add: example_region_huge_def example_region_def truthy_def
          createElement_canvas_def reflect_ulong_def ToUint32_def)
  show ?thesis
    using inside huge fits usual wrapped by simp
qed

text \<open>
  Claim C6 as stated fails: with resizing disallowed, a fresh buffer stays 300 by 150
  although the region, which lies inside the frame of 640 by 480, is 320 by 320.
\<close>

theorem drawToCanvas_disallowed_counterexample:
  "region_inside example_region 640 480
   \<and> Some (canvas_width (drawToCanvas example_frame (Some example_region) None True))
       \<noteq> region_width example_region
   \<and> Some (canvas_height (drawToCanvas example_frame (Some example_region) None True))
       \<noteq> region_height example_region"
  by (simp add: region_inside_def example_region_def drawToCanvas_def drawImage_def
        createElement_canvas_def)

section \<open>Properties of \<open>pause\<close> and \<open>stop\<close>\<close>

text \<open>The events of one teardown of a stream.\<close>

lemma stopStream_fields [simp]:
  "srcObject (video (stopStream s)) = None"
  "active (stopStream s) = active s"
  "paused (stopStream s) = paused s"
  "flashOn (stopStream s) = flashOn s"
  "preferredCamera (stopStream s) = preferredCamera s"
  "now (stopStream s) = now s"
  "timers (stopStream s) = timers s"
  "frames (stopStream s) = frames s"
  "scans (stopStream s) = scans s"
  "video_paused (video (stopStream s)) = video_paused (video s)"
  by (simp_all add: stopStream_def emit_def Let_def)

lemma stopStream_trace:
  "trace (stopStream s) =
     trace s @ (case srcObject (video s) of
                  None \<Rightarrow> []
                | Some st \<Rightarrow>
                    concat (map (\<lambda>t. [TrackStop (track_id t),
                                       RemoveTrack (stream_id st) (track_id t)])
                             (stream_tracks st)))"
  by (simp add: stopStream_def emit_def Let_def)

lemma stopStream_detached:
  "srcObject (video s) = None \<Longrightarrow> stopStream s = s"
  by (simp add: stopStream_def emit_def Let_def)

lemma stopStream_idem [simp]: "stopStream (stopStream s) = stopStream s"
  by (simp add: stopStream_detached)

text \<open>While the paused flag is set, any number of due timeouts tear the stream down once.\<close>

lemma fold_pause_timeout:
  assumes "paused s"
  shows "fold (\<lambda>d s'. snd (pause_timeout s')) due s = (if due = [] then s else stopStream s)"
proof (induction due rule: rev_induct)
  case Nil
  show ?case by simp
next
  case (snoc d due)
  then show ?case
    using assms by (simp add: pause_timeout_def)
qed

lemma wait_paused:
  assumes "paused s"
  shows "wait dt s =
     (if filter (\<lambda>d. d \<le> now s + dt) (timers s) = [] then s else stopStream s)
       \<lparr>now := now s + dt, timers := filter (\<lambda>d. \<not> d \<le> now s + dt) (timers s)\<rparr>"
  by (simp add: wait_def Let_def fold_pause_timeout [OF assms])

lemma pause_deferred_active:
  assumes "active s"
  shows "pause False s =
     (Deferred,
      s\<lparr>paused := True, video := (video s)\<lparr>video_paused := True\<rparr>,
        trace := trace s @ [VideoPause, SetTimeout 300],
        timers := timers s @ [now s + 300]\<rparr>)"
  using assms by (simp add: pause_def Let_def video_pause_def emit_def)

lemma pause_immediate_active:
  assumes "active s"
  shows "pause True s =
     (Settled True, stopStream (video_pause (s\<lparr>paused := True\<rparr>)))"
  using assms by (simp add: pause_def Let_def)

lemma pause_inactive:
  assumes "\<not> active s"
  shows "pause immediately s = (Settled True, s\<lparr>paused := True\<rparr>)"
  using assms by (simp add: pause_def Let_def)

lemma stop_active:
  assumes "active s"
  shows "stop s =
     s\<lparr>paused := True, video := (video s)\<lparr>video_paused := True\<rparr>,
       trace := trace s @ [VideoPause, SetTimeout 300],
       timers := timers s @ [now s + 300], active := False\<rparr>"
  by (simp add: stop_def pause_deferred_active [OF assms])

lemma stop_inactive:
  assumes "\<not> active s"
  shows "stop s = s\<lparr>paused := True\<rparr>"
  using assms by (simp add: stop_def pause_inactive)

text \<open>
  Claim C1, as amended. \<open>stop\<close> on an active scanner pauses the video, sets the
  paused flag, asks for a timeout of 300 ms and clears the active flag; when it returns
  the stream is still attached to the video and none of its tracks has been stopped. The
  teardown happens when the timeout fires, 300 ms later, with the paused flag still set:
  then every track is stopped and removed and the video is detached.
\<close>

theorem stop_defers_teardown:
  assumes "active s"
  shows "\<not> active (stop s) \<and> paused (stop s) \<and> video_paused (video (stop s))
       \<and> srcObject (video (stop s)) = srcObject (video s)
       \<and> trace (stop s) = trace s @ [VideoPause, SetTimeout 300]
       \<and> timers (stop s) = timers s @ [now s + 300]
       \<and> srcObject (video (wait 300 (stop s))) = None
       \<and> trace (wait 300 (stop s)) =
           trace (stop s) @
           (case srcObject (video s) of
              None \<Rightarrow> []
            | Some st \<Rightarrow>
                concat (map (\<lambda>t. [TrackStop (track_id t),
                                   RemoveTrack (stream_id st) (track_id t)])
                         (stream_tracks st)))"
proof -
  have st: "stop s =
     s\<lparr>paused := True, video := (video s)\<lparr>video_paused := True\<rparr>,
       trace := trace s @ [VideoPause, SetTimeout 300],
       timers := timers s @ [now s + 300], active := False\<rparr>"
    by (rule stop_active [OF assms])
  have p: "paused (stop s)"
    by (simp add: st)
  have due: "filter (\<lambda>d. d \<le> now (stop s) + 300) (timers (stop s)) \<noteq> []"
    by (simp add: st)
  have w: "wait 300 (stop s) =
      (stopStream (stop s))\<lparr>now := now (stop s) + 300,
         timers := filter (\<lambda>d. \<not> d \<le> now (stop s) + 300) (timers (stop s))\<rparr>"
    using due by (simp add: wait_paused [OF p])
  have tr: "trace (wait 300 (stop s)) = trace (stopStream (stop s))"
    by (simp add: w)
  have src: "srcObject (video (wait 300 (stop s))) = None"
    by (simp add: w)
  have same: "srcObject (video (stop s)) = srcObject (video s)"
    by (simp add: st)
  show ?thesis
    using src by (simp add: tr stopStream_trace same) (simp add: st)
qed

theorem stop_defers_teardown_witness:
  "active example_scanning
   \<and> \<not> active (stop example_scanning)
   \<and> srcObject (video (stop example_scanning)) = Some example_stream
   \<and> timers (stop example_scanning) = [300]
   \<and> srcObject (video (wait 300 (stop example_scanning))) = None
   \<and> trace (wait 300 (stop example_scanning)) =
       trace example_scanning @ [VideoPause, SetTimeout 300, TrackStop 1, RemoveTrack 7 1]"
proof -
  have a: "active example_scanning"
    by (simp add: example_scanning_facts)
  show ?thesis
    using a stop_defers_teardown [OF a]
    by (simp add: example_scanning_facts example_stream_def example_track_def)
qed

text \<open>
  Claim C1 as stated fails: when \<open>stop\<close> returns on the scanning example, the stream
  is still attached to the video and its track has not been stopped.
\<close>

theorem stop_immediate_teardown_counterexample:
  "active example_scanning
   \<and> srcObject (video (stop example_scanning)) = Some example_stream
   \<and> TrackStop 1 \<notin> set (trace (stop example_scanning))
   \<and> RemoveTrack 7 1 \<notin> set (trace (stop example_scanning))"
  by (simp add: example_scanning_facts stop_active)

section \<open>Repeated pauses\<close>

text \<open>
  The state of a scanner between a first \<open>pause()\<close> at time \<open>t0\<close>, on the stream
  \<open>st\<close>, and anything but further pauses and the passing of time: both flags are set
  and no timeout is due before \<open>t0 + 300\<close>; until then the stream is attached and the
  timeout of the first pause is pending, from then on the stream is detached.
\<close>

lemma pause_keeps_pending:
  assumes "active s" and "paused s" and "t0 \<le> now s"
    and "\<forall>d \<in> set (timers s). t0 + 300 \<le> d"
    and "if now s < t0 + 300
         then srcObject (video s) = Some st \<and> t0 + 300 \<in> set (timers s)
         else srcObject (video s) = None"
  shows "active (snd (pause False s)) \<and> paused (snd (pause False s))
       \<and> now (snd (pause False s)) = now s
       \<and> (\<forall>d \<in> set (timers (snd (pause False s))). t0 + 300 \<le> d)
       \<and> (if now s < t0 + 300
           then srcObject (video (snd (pause False s))) = Some st
              \<and> t0 + 300 \<in> set (timers (snd (pause False s)))
           else srcObject (video (snd (pause False s))) = None)"
  using assms by (auto simp: pause_deferred_active)

lemma wait_keeps_pending:
  assumes "active s" and "paused s" and "t0 \<le> now s"
    and later: "\<forall>d \<in> set (timers s). t0 + 300 \<le> d"
    and inv: "if now s < t0 + 300
         then srcObject (video s) = Some st \<and> t0 + 300 \<in> set (timers s)
         else srcObject (video s) = None"
  shows "active (wait dt s) \<and> paused (wait dt s)
       \<and> now (wait dt s) = now s + dt
       \<and> (\<forall>d \<in> set (timers (wait dt s)). t0 + 300 \<le> d)
       \<and> (if now s + dt < t0 + 300
           then srcObject (video (wait dt s)) = Some st \<and> t0 + 300 \<in> set (timers (wait dt s))
           else srcObject (video (wait dt s)) = None)"
proof (cases "now s + dt < t0 + 300")
  case True
  then have none_due: "filter (\<lambda>d. d \<le> now s + dt) (timers s) = []"
    using later by (auto simp: filter_empty_conv)
  have before: "now s < t0 + 300"
    using True by simp
  show ?thesis
    using assms(1,2) later inv True before
    by (simp add: wait_paused [OF assms(2)] none_due)
next
  case False
  show ?thesis
  proof (cases "now s < t0 + 300")
    case True
    then have "t0 + 300 \<in> set (timers s)"
      using inv by simp
    moreover have "t0 + 300 \<le> now s + dt"
      using False by simp
    ultimately have "\<exists>d \<in> set (timers s). d \<le> now s + dt"
      by blast
    then have due: "filter (\<lambda>d. d \<le> now s + dt) (timers s) \<noteq> []"
      by (simp add: filter_empty_conv)
    show ?thesis
      using assms(1,2) later False due
      by (simp add: wait_paused [OF assms(2)])
  next
    case gone: False
    then have "srcObject (video s) = None"
      using inv by simp
    then show ?thesis
      using assms(1,2) later False
      by (simp add: wait_paused [OF assms(2)] stopStream_detached)
  qed
qed

lemma pauses_keep_pending:
  assumes "list_all pause_or_wait cs"
    and "active s" and "paused s" and "t0 \<le> now s"
    and "\<forall>d \<in> set (timers s). t0 + 300 \<le> d"
    and "if now s < t0 + 300
         then srcObject (video s) = Some st \<and> t0 + 300 \<in> set (timers s)
         else srcObject (video s) = None"
  shows "now (run P cs s) = now s + elapsed cs
       \<and> srcObject (video (run P cs s)) =
           (if now s + elapsed cs < t0 + 300 then Some st else None)"
  using assms
proof (induction cs arbitrary: s)
  case Nil
  then show ?case
    by (simp add: run_def elapsed_def)
next
  case (Cons c cs)
  have rest: "list_all pause_or_wait cs"
    using Cons.prems(1) by simp
  show ?case
  proof (cases c)
    case (Pause immediately)
    then have c: "c = Pause False"
      using Cons.prems(1) by simp
    have step: "run P (c # cs) s = run P cs (snd (pause False s))"
      by (simp add: run_def c)
    have el: "elapsed (c # cs) = elapsed cs"
      by (simp add: elapsed_def c)
    note k = pause_keeps_pending [OF Cons.prems(2-6)]
    have "now (run P cs (snd (pause False s))) = now (snd (pause False s)) + elapsed cs
       \<and> srcObject (video (run P cs (snd (pause False s)))) =
           (if now (snd (pause False s)) + elapsed cs < t0 + 300 then Some st else None)"
      using k Cons.prems(4) by (intro Cons.IH [OF rest]) simp_all
    then show ?thesis
      using k by (simp add: step el)
  next
    case (Wait dt)
    have step: "run P (c # cs) s = run P cs (wait dt s)"
      by (simp add: run_def Wait)
    have el: "elapsed (c # cs) = dt + elapsed cs"
      by (simp add: elapsed_def Wait)
    note k = wait_keeps_pending [OF Cons.prems(2-6), of dt]
    have "now (run P cs (wait dt s)) = now (wait dt s) + elapsed cs
       \<and> srcObject (video (run P cs (wait dt s))) =
           (if now (wait dt s) + elapsed cs < t0 + 300 then Some st else None)"
      using k Cons.prems(4) by (intro Cons.IH [OF rest]) simp_all
    then show ?thesis
      using k by (simp add: step el add.assoc)
  qed (use Cons.prems(1) in simp_all)
qed

text \<open>
  Claim C2, as amended. The callback of a pause's timeout tears the stream down if and
  only if the paused flag is set at the moment it runs. On an active scanner with a
  stream and no timeout pending, after \<open>pause()\<close> and any further \<open>pause()\<close> calls
  spread over time, the stream is attached as long as less than 300 ms have passed since
  the first pause and detached from then on: later pauses do not move the teardown of
  the first.
\<close>

theorem pause_teardown_after_first_window:
  assumes "active s" and "timers s = []" and "srcObject (video s) = Some st"
    and "list_all pause_or_wait cs"
  shows "fst (pause_timeout s') = paused s'
       \<and> snd (pause_timeout s') = (if paused s' then stopStream s' else s')
       \<and> srcObject (video (run P (Pause False # cs) s)) =
           (if elapsed cs < 300 then Some st else None)"
proof -
  let ?s1 = "snd (pause False s)"
  have s1: "?s1 =
     s\<lparr>paused := True, video := (video s)\<lparr>video_paused := True\<rparr>,
       trace := trace s @ [VideoPause, SetTimeout 300],
       timers := timers s @ [now s + 300]\<rparr>"
    by (simp add: pause_deferred_active [OF assms(1)])
  have "now (run P cs ?s1) = now ?s1 + elapsed cs
       \<and> srcObject (video (run P cs ?s1)) =
           (if now ?s1 + elapsed cs < now s + 300 then Some st else None)"
    using assms by (intro pauses_keep_pending) (simp_all add: s1)
  then have "srcObject (video (run P cs ?s1)) = (if elapsed cs < 300 then Some st else None)"
    by (simp add: s1)
  moreover have "run P (Pause False # cs) s = run P cs ?s1"
    by (simp add: run_def)
  ultimately show ?thesis
    by (simp add: pause_timeout_def)
qed

theorem pause_teardown_after_first_window_witness:
  "active example_scanning \<and> timers example_scanning = []
   \<and> srcObject (video example_scanning) = Some example_stream
   \<and> list_all pause_or_wait [Wait 200, Pause False, Wait 99]
   \<and> srcObject (video (run example_platform
         [Pause False, Wait 200, Pause False, Wait 99] example_scanning)) = Some example_stream
   \<and> list_all pause_or_wait [Wait 200, Pause False, Wait 100]
   \<and> srcObject (video (run example_platform
         [Pause False, Wait 200, Pause False, Wait 100] example_scanning)) = None"
proof -
  have a: "active example_scanning" and t: "timers example_scanning = []"
    and v: "srcObject (video example_scanning) = Some example_stream"
    by (simp_all add: example_scanning_facts)
  have l1: "list_all pause_or_wait [Wait 200, Pause False, Wait 99]"
    and l2: "list_all pause_or_wait [Wait 200, Pause False, Wait 100]"
    by simp_all
  show ?thesis
    using a t v l1 l2
      pause_teardown_after_first_window [OF a t v l1, of example_scanning example_platform]
      pause_teardown_after_first_window [OF a t v l2, of example_scanning example_platform]
    by (simp add: elapsed_def)
qed

text \<open>
  Claim C2 as stated fails: two pauses 200 ms apart, and the stream is torn down 300 ms
  after the first, while the timeout of the second pause, due at 500 ms, is still
  pending.
\<close>

theorem pause_debounce_counterexample:
  "now (run example_platform [Pause False, Wait 200, Pause False, Wait 100]
          example_scanning) = 300
   \<and> timers (run example_platform [Pause False, Wait 200, Pause False, Wait 100]
          example_scanning) = [500]
   \<and> srcObject (video (run example_platform [Pause False, Wait 200, Pause False, Wait 100]
          example_scanning)) = None
   \<and> TrackStop 1 \<in> set (trace (run example_platform
          [Pause False, Wait 200, Pause False, Wait 100] example_scanning))"
  by (simp add: run_def example_scanning_eq pause_def Let_def video_pause_def emit_def
        wait_def pause_timeout_def stopStream_def example_stream_def example_track_def)

section \<open>Properties of the scan loop\<close>

lemma scanFrame_inactive:
  "\<not> active s \<Longrightarrow> scanFrame s = s"
  by (simp add: scanFrame_def)

lemma scanFrame_trace:
  "trace (scanFrame s) =
     trace s @ (if \<not> active s \<or> video_paused (video s) \<or> video_ended (video s) then []
                else [RequestAnimationFrame])"
  by (simp add: scanFrame_def emit_def)

lemma scanFrame_frames:
  "frames (scanFrame s) =
     frames s + (if \<not> active s \<or> video_paused (video s) \<or> video_ended (video s) then 0
                 else 1)"
  by (simp add: scanFrame_def emit_def)

lemma not_found_message:
  "\<not> has_substring ''service unavailable'' (errorMessage NoQrCodeFound)"
  by code_simp

text \<open>
  Once the scanner is no longer active, a failed round trip calls no handler and
  schedules no cycle.
\<close>

lemma onScanSettled_error_inactive:
  assumes "\<not> active s" and "0 < scans s"
  shows "trace (onScanSettled (Inl e) s) = trace s"
    and "frames (onScanSettled (Inl e) s) = frames s"
  using assms by (simp_all add: onScanSettled_def Let_def scanFrame_def)

text \<open>A successful round trip schedules no cycle either, but it calls the handler.\<close>

lemma onScanSettled_success_inactive:
  assumes "\<not> active s" and "0 < scans s"
  shows "trace (onScanSettled (Inr payload) s) = trace s @ [OnDecode payload]"
    and "frames (onScanSettled (Inr payload) s) = frames s"
  using assms by (simp_all add: onScanSettled_def Let_def scanFrame_def emit_def)

lemma example_ready_eq:
  "example_ready =
     \<lparr>preferredCamera = ''environment'', active = True, paused = False, flashOn = False,
      video = \<lparr>srcObject = Some example_stream, video_paused = False, video_ended = False,
               readyState = 4, mirrored = False\<rparr>,
      now = 0, timers = [], frames = 1, scans = 0,
      trace = [GetUserMedia \<lparr>min_width = Some 1024, facingMode = Some (Exact ''environment''),
                             deviceId = None\<rparr>,
               GetUserMedia \<lparr>min_width = Some 768, facingMode = Some (Exact ''environment''),
                             deviceId = None\<rparr>,
               VideoPlay, RequestAnimationFrame],
      onDecode_throws = (\<lambda>_. False), onDecodeError_throws = (\<lambda>_. False)\<rparr>"
  by (simp add: example_ready_def example_scanning_eq)

lemma example_ready_facts:
  "active example_ready"
  "\<not> paused example_ready"
  "srcObject (video example_ready) = Some example_stream"
  "\<not> video_paused (video example_ready)"
  "\<not> video_ended (video example_ready)"
  "readyState (video example_ready) = 4"
  "now example_ready = 0"
  "timers example_ready = []"
  "frames example_ready = 1"
  "scans example_ready = 0"
  "onDecode_throws example_ready = (\<lambda>_. False)"
  "onDecodeError_throws example_ready = (\<lambda>_. False)"
  by (simp_all add: example_ready_eq)

text \<open>
  Claim C3 at its failing input. A cycle of the scanning example starts a decode round
  trip; \<open>stop\<close> is called while the round trip is in flight; the round trip then
  resolves with the payload \<open>ABC123\<close>. The scanner is not active at that moment, and
  the success handler is called all the same. No further cycle is scheduled.
\<close>

theorem onDecode_called_after_stop:
  "scans (run example_platform [AnimationFrame, Stop] example_ready) = 1
   \<and> \<not> active (run example_platform [AnimationFrame, Stop] example_ready)
   \<and> trace (run example_platform [AnimationFrame, Stop, ScanSettled (Inr ''ABC123'')]
        example_ready) =
       trace (run example_platform [AnimationFrame, Stop] example_ready) @ [OnDecode ''ABC123'']
   \<and> frames (run example_platform [AnimationFrame, Stop, ScanSettled (Inr ''ABC123'')]
        example_ready) = 0"
  by (simp add: run_def example_ready_eq onAnimationFrame_def Let_def emit_def stop_def
        pause_def video_pause_def onScanSettled_def scanFrame_def)

text \<open>
  Claim C4, as amended. When the round trip of a cycle ends in \<open>NoQrCodeFound\<close> on an
  active scanner, the success handler is not called and the decode-error handler is
  called once, with that error. If the handler returns, another cycle is scheduled
  exactly when the video is neither paused nor ended.
\<close>

theorem not_found_reschedules:
  assumes "active s" and "0 < scans s" and "\<not> onDecodeError_throws s NoQrCodeFound"
  shows "trace (onScanSettled (Inl NoQrCodeFound) s) =
           trace s @ [OnDecodeError NoQrCodeFound] @
           (if video_paused (video s) \<or> video_ended (video s) then []
            else [RequestAnimationFrame])
       \<and> frames (onScanSettled (Inl NoQrCodeFound) s) =
           frames s + (if video_paused (video s) \<or> video_ended (video s) then 0 else 1)
       \<and> active (onScanSettled (Inl NoQrCodeFound) s)"
  using assms not_found_message
  by (simp add: onScanSettled_def Let_def scanFrame_def emit_def)

theorem not_found_reschedules_witness:
  "active (run example_platform [AnimationFrame] example_ready)
   \<and> 0 < scans (run example_platform [AnimationFrame] example_ready)
   \<and> \<not> onDecodeError_throws (run example_platform [AnimationFrame] example_ready)
         NoQrCodeFound
   \<and> trace (onScanSettled (Inl NoQrCodeFound)
         (run example_platform [AnimationFrame] example_ready)) =
       trace (run example_platform [AnimationFrame] example_ready) @
       [OnDecodeError NoQrCodeFound, RequestAnimationFrame]
   \<and> frames (onScanSettled (Inl NoQrCodeFound)
         (run example_platform [AnimationFrame] example_ready)) = 1"
proof -
  let ?s = "run example_platform [AnimationFrame] example_ready"
  have s: "?s = (example_ready\<lparr>frames := 0, scans := 1,
                    trace := trace example_ready @ [ScanImage]\<rparr>)"
    by (simp add: run_def example_ready_eq onAnimationFrame_def Let_def emit_def)
  have a: "active ?s"
    by (simp add: s example_ready_facts)
  have n: "0 < scans ?s"
    by (simp add: s)
  have h: "\<not> onDecodeError_throws ?s NoQrCodeFound"
    by (simp add: s example_ready_facts)
  show ?thesis
    using a n h not_found_reschedules [OF a n h]
    by (simp add: s example_ready_facts)
qed

text \<open>
  Claim C4 as stated fails: \<open>pause()\<close> leaves the scanner active but pauses the video.
  A round trip that then ends in \<open>NoQrCodeFound\<close> calls the error handler, and no
  further cycle is scheduled although the scanner is active.
\<close>

theorem not_found_while_paused_counterexample:
  "active (run example_platform [AnimationFrame, Pause False] example_ready)
   \<and> scans (run example_platform [AnimationFrame, Pause False] example_ready) = 1
   \<and> active (run example_platform
        [AnimationFrame, Pause False, ScanSettled (Inl NoQrCodeFound)] example_ready)
   \<and> trace (run example_platform
        [AnimationFrame, Pause False, ScanSettled (Inl NoQrCodeFound)] example_ready) =
       trace (run example_platform [AnimationFrame, Pause False] example_ready) @
       [OnDecodeError NoQrCodeFound]
   \<and> frames (run example_platform
        [AnimationFrame, Pause False, ScanSettled (Inl NoQrCodeFound)] example_ready) = 0"
  using not_found_message
  by (simp add: run_def example_ready_eq onAnimationFrame_def Let_def emit_def
        pause_def video_pause_def onScanSettled_def scanFrame_def)

section \<open>Properties of \<open>setCamera\<close>\<close>

lemma setCamera_same:
  "setCamera P (preferredCamera s) s = (Inr (), s)"
  by (simp add: setCamera_def)

text \<open>
  On an active scanner a new preference is recorded and the stream is torn down at
  once; \<open>start\<close> is called afterwards unless the scanner was paused already.
\<close>

lemma setCamera_active:
  assumes "c \<noteq> preferredCamera s" and "active s"
  shows "setCamera P c s =
     (if paused s
      then (Inr (), stopStream (video_pause (s\<lparr>preferredCamera := c, paused := True\<rparr>)))
      else start P (stopStream (video_pause (s\<lparr>preferredCamera := c, paused := True\<rparr>))))"
  using assms
  by (simp add: setCamera_def Let_def pause_def video_pause_def emit_def)

lemma setCamera_inactive:
  assumes "c \<noteq> preferredCamera s" and "\<not> active s"
  shows "setCamera P c s = (Inr (), s\<lparr>preferredCamera := c, paused := True\<rparr>)"
  using assms by (simp add: setCamera_def Let_def pause_def)

lemma video_pause_fields [simp]:
  "srcObject (video (video_pause s)) = srcObject (video s)"
  "active (video_pause s) = active s"
  "paused (video_pause s) = paused s"
  "flashOn (video_pause s) = flashOn s"
  "preferredCamera (video_pause s) = preferredCamera s"
  "trace (video_pause s) = trace s @ [VideoPause]"
  "video_paused (video (video_pause s))"
  by (simp_all add: video_pause_def emit_def)

text \<open>
  What \<open>start\<close> does on a scanner that is active and paused, has no stream, and whose
  page is visible: it asks for the preferred camera as an exact match first.
\<close>

lemma start_paused_detached:
  assumes "paused s" and "srcObject (video s) = None" and "\<not> document_hidden P"
  shows "start P s = start_acquire P (s\<lparr>active := True, paused := False\<rparr>)"
  using assms by (simp add: start_def Let_def)

lemma start_acquire_exact:
  assumes "getCameraStream P (Some (preferredCamera s)) True = (Inr st, tried)"
  shows "start_acquire P s =
     (Inr (),
      start_then P st
        (if preferredCamera s = ''environment'' \<or> preferredCamera s = ''user''
         then Some (preferredCamera s) else None)
        (emit (map GetUserMedia tried) s))"
  using assms by (simp add: start_acquire_def Let_def)

lemma setFlash_keeps [simp]:
  "srcObject (video (snd (setFlash P on s))) = srcObject (video s)"
  "active (snd (setFlash P on s)) = active s"
  "paused (snd (setFlash P on s)) = paused s"
  "preferredCamera (snd (setFlash P on s)) = preferredCamera s"
  by (simp_all add: setFlash_def Let_def emit_def split: sum.splits option.splits)

lemma start_then_fields:
  "srcObject (video (start_then P st guess s)) = Some st"
  "active (start_then P st guess s) = active s"
  "paused (start_then P st guess s) = paused s"
  "preferredCamera (start_then P st guess s) = preferredCamera s"
  by (simp_all add: start_then_def Let_def turnFlashOn_def setVideoMirror_def video_play_def
        emit_def)

text \<open>
  The events of \<open>start_then\<close> begin with \<open>VideoPlay\<close>; at most the setting of the
  torch follows.
\<close>

lemma start_then_trace:
  "\<exists>rest. trace (start_then P st guess s) = trace s @ VideoPlay # rest"
  by (simp add: start_then_def Let_def turnFlashOn_def setVideoMirror_def video_play_def
        emit_def setFlash_def split: sum.splits option.splits)

text \<open>
  What \<open>setCamera\<close> does, case by case. Switching to the preference that is already
  selected changes nothing and asks for no camera. With a different preference the new
  preference is recorded and the paused flag is set. If the scanner is not active,
  nothing else happens. If the scanner is active, the video is paused and the stream is
  stopped and detached at once; and if the scanner was not paused before, \<open>start\<close> is
  called on the state so reached. On a visible page with a camera for the new
  preference, this restart asks \<open>getUserMedia\<close> for the new preference as an exact
  match and ends active, not paused, on the stream it got.
\<close>

lemma setCamera_switch:
  fixes P :: platform and c :: string and s :: scanner
  defines "torn \<equiv> stopStream (video_pause (s\<lparr>preferredCamera := c, paused := True\<rparr>))"
  shows "setCamera P (preferredCamera s) s = (Inr (), s)
       \<and> (c \<noteq> preferredCamera s \<and> \<not> active s \<longrightarrow>
            setCamera P c s = (Inr (), s\<lparr>preferredCamera := c, paused := True\<rparr>))
       \<and> (c \<noteq> preferredCamera s \<and> active s \<longrightarrow>
            srcObject (video torn) = None
            \<and> trace torn =
                trace s @ VideoPause #
                (case srcObject (video s) of
                   None \<Rightarrow> []
                 | Some st \<Rightarrow>
                     concat (map (\<lambda>t. [TrackStop (track_id t),
                                        RemoveTrack (stream_id st) (track_id t)])
                              (stream_tracks st)))
            \<and> setCamera P c s = (if paused s then (Inr (), torn) else start P torn))
       \<and> (c \<noteq> preferredCamera s \<and> active s \<and> \<not> paused s \<and> \<not> document_hidden P
            \<and> getCameraStream P (Some c) True = (Inr st', tried) \<longrightarrow>
            fst (setCamera P c s) = Inr ()
            \<and> preferredCamera (snd (setCamera P c s)) = c
            \<and> active (snd (setCamera P c s)) \<and> \<not> paused (snd (setCamera P c s))
            \<and> srcObject (video (snd (setCamera P c s))) = Some st'
            \<and> (\<exists>rest. trace (snd (setCamera P c s)) =
                  trace torn @ map GetUserMedia tried @ VideoPlay # rest))"
proof -
  have same: "setCamera P (preferredCamera s) s = (Inr (), s)"
    by (rule setCamera_same)
  have inactive: "c \<noteq> preferredCamera s \<and> \<not> active s \<longrightarrow>
      setCamera P c s = (Inr (), s\<lparr>preferredCamera := c, paused := True\<rparr>)"
    by (simp add: setCamera_inactive)
  have active: "c \<noteq> preferredCamera s \<and> active s \<longrightarrow>
      srcObject (video torn) = None
      \<and> trace torn =
          trace s @ VideoPause #
          (case srcObject (video s) of
             None \<Rightarrow> []
           | Some st \<Rightarrow>
               concat (map (\<lambda>t. [TrackStop (track_id t),
                                  RemoveTrack (stream_id st) (track_id t)])
                        (stream_tracks st)))
      \<and> setCamera P c s = (if paused s then (Inr (), torn) else start P torn)"
    unfolding torn_def
    by (simp add: setCamera_active stopStream_trace)
  have restart: "c \<noteq> preferredCamera s \<and> active s \<and> \<not> paused s \<and> \<not> document_hidden P
        \<and> getCameraStream P (Some c) True = (Inr st', tried) \<longrightarrow>
      fst (setCamera P c s) = Inr ()
      \<and> preferredCamera (snd (setCamera P c s)) = c
      \<and> active (snd (setCamera P c s)) \<and> \<not> paused (snd (setCamera P c s))
      \<and> srcObject (video (snd (setCamera P c s))) = Some st'
      \<and> (\<exists>rest. trace (snd (setCamera P c s)) =
            trace torn @ map GetUserMedia tried @ VideoPlay # rest)"
  proof (intro impI, elim conjE)
    assume new: "c \<noteq> preferredCamera s" and a: "active s" and p: "\<not> paused s"
      and visible: "\<not> document_hidden P"
      and got: "getCameraStream P (Some c) True = (Inr st', tried)"
    let ?s2 = "torn\<lparr>active := True, paused := False\<rparr>"
    let ?guess = "if c = ''environment'' \<or> c = ''user'' then Some c else None"
    have paused_torn: "paused torn" and detached: "srcObject (video torn) = None"
      by (simp_all add: torn_def)
    have pref: "preferredCamera ?s2 = c"
      by (simp add: torn_def)
    have "setCamera P c s = start P torn"
      using new a p by (simp add: setCamera_active torn_def)
    also have "\<dots> = start_acquire P ?s2"
      by (rule start_paused_detached [OF paused_torn detached visible])
    also have "\<dots> = (Inr (), start_then P st' ?guess (emit (map GetUserMedia tried) ?s2))"
      using got start_acquire_exact [of P ?s2 st' tried] by (simp add: pref)
    finally have eq: "setCamera P c s =
        (Inr (), start_then P st' ?guess (emit (map GetUserMedia tried) ?s2))" .
    obtain rest where "trace (start_then P st' ?guess (emit (map GetUserMedia tried) ?s2)) =
        trace (emit (map GetUserMedia tried) ?s2) @ VideoPlay # rest"
      using start_then_trace by blast
    then have "\<exists>rest. trace (snd (setCamera P c s)) =
        trace torn @ map GetUserMedia tried @ VideoPlay # rest"
      by (simp add: eq emit_def)
    then show "fst (setCamera P c s) = Inr ()
      \<and> preferredCamera (snd (setCamera P c s)) = c
      \<and> active (snd (setCamera P c s)) \<and> \<not> paused (snd (setCamera P c s))
      \<and> srcObject (video (snd (setCamera P c s))) = Some st'
      \<and> (\<exists>rest. trace (snd (setCamera P c s)) =
            trace torn @ map GetUserMedia tried @ VideoPlay # rest)"
      by (simp add: eq start_then_fields emit_def torn_def)
  qed
  show ?thesis
    using same inactive active restart by blast
qed

text \<open>
  Claim C9 at its failing input. The scanning example, which prefers the camera
  \<open>environment\<close>, is stopped; within 300 ms the camera is switched to \<open>user\<close> and
  the scanner is started again. The switch stops no track and leaves the stream
  attached, because \<open>pause(true)\<close> returns early on a scanner that is not active; the
  start then finds the stream, plays it and asks for no camera; and the timeout of
  \<open>stop\<close>, which fires at 300 ms, finds the paused flag cleared and tears nothing
  down. The scanner ends active and playing the stream it acquired for
  \<open>environment\<close>, with \<open>user\<close> as its preferred camera.
\<close>

theorem setCamera_after_stop_keeps_old_stream:
  "preferredCamera example_scanning = ''environment''
   \<and> srcObject (video example_scanning) = Some example_stream
   \<and> srcObject (video (run example_platform [Stop, SetCamera ''user''] example_scanning)) =
       Some example_stream
   \<and> trace (run example_platform [Stop, SetCamera ''user''] example_scanning) =
       trace example_scanning @ [VideoPause, SetTimeout 300]
   \<and> preferredCamera (run example_platform [Stop, SetCamera ''user'', Start, Wait 300]
         example_scanning) = ''user''
   \<and> active (run example_platform [Stop, SetCamera ''user'', Start, Wait 300]
         example_scanning)
   \<and> \<not> paused (run example_platform [Stop, SetCamera ''user'', Start, Wait 300]
         example_scanning)
   \<and> srcObject (video (run example_platform [Stop, SetCamera ''user'', Start, Wait 300]
         example_scanning)) = Some example_stream
   \<and> timers (run example_platform [Stop, SetCamera ''user'', Start, Wait 300]
         example_scanning) = []
   \<and> trace (run example_platform [Stop, SetCamera ''user'', Start, Wait 300]
         example_scanning) =
       trace example_scanning @ [VideoPause, SetTimeout 300, VideoPlay]"
proof -
  have visible: "\<not> document_hidden example_platform"
    by (simp add: example_platform_def)
  have stopped: "stop example_scanning =
      example_scanning\<lparr>paused := True,
        video := (video example_scanning)\<lparr>video_paused := True\<rparr>,
        trace := trace example_scanning @ [VideoPause, SetTimeout 300],
        timers := [300], active := False\<rparr>"
    by (simp add: stop_active example_scanning_facts)
  have switched: "run example_platform [Stop, SetCamera ''user''] example_scanning =
      (stop example_scanning)\<lparr>preferredCamera := ''user'', paused := True\<rparr>"
    by (simp add: run_def setCamera_inactive stopped example_scanning_facts)
  have started: "run example_platform [Stop, SetCamera ''user'', Start] example_scanning =
      video_play ((stop example_scanning)\<lparr>preferredCamera := ''user'', active := True,
         paused := False\<rparr>)"
    using visible
    by (simp add: run_def setCamera_inactive stopped example_scanning_facts start_def Let_def)
  have waited: "run example_platform [Stop, SetCamera ''user'', Start, Wait 300]
        example_scanning =
      wait 300 (video_play ((stop example_scanning)\<lparr>preferredCamera := ''user'',
         active := True, paused := False\<rparr>))"
    using started by (simp add: run_def)
  show ?thesis
    unfolding waited switched
    by (simp add: stopped wait_def Let_def pause_timeout_def video_play_def emit_def
          example_scanning_facts)
qed

section \<open>Properties of the flash\<close>

lemma setFlash_deferred:
  assumes "\<not> active s \<or> paused s"
  shows "setFlash P True s = (Inr (), s\<lparr>flashOn := True\<rparr>)"
  using assms by (auto simp: setFlash_def Let_def)

lemma videoTrack_flashOn [simp]: "videoTrack (s\<lparr>flashOn := b\<rparr>) = videoTrack s"
  by (simp add: videoTrack_def)

lemma hasFlash_flashOn [simp]: "hasFlash P (s\<lparr>flashOn := b\<rparr>) = hasFlash P s"
  by (simp add: hasFlash_def)

lemma setFlash_now:
  assumes "\<not> (on \<and> (\<not> active s \<or> paused s))"
  shows "setFlash P on s =
     (case hasFlash P s of
        Inl e \<Rightarrow> (Inl e, s\<lparr>flashOn := \<not> on\<rparr>)
      | Inr has \<Rightarrow>
          if \<not> has then (Inl NoFlashAvailable, s\<lparr>flashOn := \<not> on\<rparr>)
          else (case videoTrack s of
                  None \<Rightarrow> (Inl (PlatformError ''TypeError''), s\<lparr>flashOn := \<not> on\<rparr>)
                | Some t \<Rightarrow>
                    (case applyConstraints P t on of
                       Some e \<Rightarrow> (Inl e, s\<lparr>flashOn := \<not> on\<rparr>)
                     | None \<Rightarrow> (Inr (), emit [TorchSet (track_id t) on] (s\<lparr>flashOn := on\<rparr>)))))"
  using assms
  by (auto simp: setFlash_def Let_def split: sum.splits option.splits)

lemma setFlash_failure:
  assumes "fst (setFlash P on s) = Inl e"
  shows "snd (setFlash P on s) = s\<lparr>flashOn := \<not> on\<rparr>"
  using assms
  by (auto simp: setFlash_def Let_def split: sum.splits option.splits if_splits)

text \<open>
  A start that acquires a stream turns the recorded flash on: the torch of the stream's
  video track is set when the track has one.
\<close>

lemma start_then_flash:
  assumes "flashOn s" and "active s" and "\<not> paused s" and "imageCapture P"
    and track: "filter (\<lambda>t. track_kind t = VideoTrack) (stream_tracks st) = t # ts"
    and "photoCapabilities P t = Some modes" and "''flash'' \<in> set modes"
    and "applyConstraints P t True = None"
  shows "trace (start_then P st guess s) = trace s @ [VideoPlay, TorchSet (track_id t) True]"
    and "flashOn (start_then P st guess s)"
proof -
  let ?s2 = "setVideoMirror
      (case getFacingMode st of
         Some m \<Rightarrow> m
       | None \<Rightarrow> (case guess of Some g \<Rightarrow> g | None \<Rightarrow> ''environment''))
      (video_play (s\<lparr>video := (video s)\<lparr>srcObject := Some st\<rparr>\<rparr>))"
  have vt: "videoTrack ?s2 = Some t"
    using track by (simp add: videoTrack_def setVideoMirror_def video_play_def emit_def)
  have hf: "hasFlash P ?s2 = Inr True"
    using assms(4,6,7) by (simp add: hasFlash_def vt)
  have flags: "flashOn ?s2" "active ?s2" "\<not> paused ?s2"
    using assms(1-3) by (simp_all add: setVideoMirror_def video_play_def emit_def)
  have "setFlash P True ?s2 = (Inr (), emit [TorchSet (track_id t) True] (?s2\<lparr>flashOn := True\<rparr>))"
    using flags assms(8) by (subst setFlash_now) (simp_all add: hf vt)
  then have st: "start_then P st guess s = emit [TorchSet (track_id t) True] (?s2\<lparr>flashOn := True\<rparr>)"
    using flags by (simp add: start_then_def Let_def turnFlashOn_def)
  show "trace (start_then P st guess s) = trace s @ [VideoPlay, TorchSet (track_id t) True]"
    by (simp add: st emit_def setVideoMirror_def video_play_def)
  show "flashOn (start_then P st guess s)"
    by (simp add: st emit_def)
qed

text \<open>
  The acquisition of \<open>start\<close> when the exact request fails and the request without
  a preference succeeds.
\<close>

lemma start_acquire_fallback:
  assumes "getCameraStream P (Some (preferredCamera s)) True = (Inl e, tried1)"
    and "getCameraStream P None False = (Inr st, tried2)"
  shows "start_acquire P s =
     (Inr (),
      start_then P st
        (Some (if preferredCamera s = ''environment'' then ''user'' else ''environment''))
        (emit (map GetUserMedia (tried1 @ tried2)) s))"
  using assms by (auto simp: start_acquire_def Let_def)

text \<open>
  Claim C10, as amended. For a call \<open>_setFlash(on)\<close>:
  \<^item> flash requested while the scanner is inactive or paused: the call resolves, the
    flag is set, and nothing else happens;
  \<^item> otherwise, without \<open>ImageCapture\<close> in the browser, or with a video track for which
    the browser reports no flash, the call is rejected with \<open>NoFlashAvailable\<close>;
  \<^item> otherwise, with \<open>ImageCapture\<close> but without a video track, the call is rejected
    with the error of \<open>hasFlash\<close>, \<open>CameraNotStarted\<close>;
  \<^item> a call that asked for a change of the flag and fails leaves the flag at its value
    before the call;
  \<^item> a visible \<open>start\<close> of a scanner without a stream, with the flash recorded, that
    acquires a stream whose video track has a torch, sets that torch, whether the stream
    comes from the exact request or, after that has failed, from the request without a
    preference.
\<close>

theorem setFlash_outcomes:
  fixes P :: platform and on :: bool and s :: scanner
  defines "deferred \<equiv> on \<and> (\<not> active s \<or> paused s)"
  shows "(deferred \<longrightarrow> setFlash P on s = (Inr (), s\<lparr>flashOn := True\<rparr>))
       \<and> (\<not> deferred \<and> \<not> imageCapture P \<longrightarrow> fst (setFlash P on s) = Inl NoFlashAvailable)
       \<and> (\<not> deferred \<and> videoTrack s = Some t
            \<and> (case photoCapabilities P t of None \<Rightarrow> True | Some modes \<Rightarrow> ''flash'' \<notin> set modes)
            \<longrightarrow> fst (setFlash P on s) = Inl NoFlashAvailable)
       \<and> (\<not> deferred \<and> imageCapture P \<and> videoTrack s = None \<longrightarrow>
            fst (setFlash P on s) = Inl CameraNotStarted)
       \<and> (on \<noteq> flashOn s \<and> isl (fst (setFlash P on s)) \<longrightarrow>
            snd (setFlash P on s) = s)
       \<and> (flashOn s0 \<and> (\<not> active s0 \<or> paused s0) \<and> srcObject (video s0) = None
            \<and> \<not> document_hidden P \<and> imageCapture P
            \<and> (getCameraStream P (Some (preferredCamera s0)) True = (Inr st, tried)
                \<or> (\<exists>e tried1 tried2.
                      getCameraStream P (Some (preferredCamera s0)) True = (Inl e, tried1)
                      \<and> getCameraStream P None False = (Inr st, tried2)
                      \<and> tried = tried1 @ tried2))
            \<and> filter (\<lambda>t. track_kind t = VideoTrack) (stream_tracks st) = vt # vts
            \<and> photoCapabilities P vt = Some caps \<and> ''flash'' \<in> set caps
            \<and> applyConstraints P vt True = None \<longrightarrow>
            fst (start P s0) = Inr ()
            \<and> flashOn (snd (start P s0))
            \<and> srcObject (video (snd (start P s0))) = Some st
            \<and> trace (snd (start P s0)) =
                trace s0 @ map GetUserMedia tried @ [VideoPlay, TorchSet (track_id vt) True])"
proof -
  have d: "deferred \<longrightarrow> setFlash P on s = (Inr (), s\<lparr>flashOn := True\<rparr>)"
    unfolding deferred_def using setFlash_deferred [of s P] by auto
  have noCapture: "\<not> deferred \<and> \<not> imageCapture P \<longrightarrow>
      fst (setFlash P on s) = Inl NoFlashAvailable"
    unfolding deferred_def
    by (intro impI, elim conjE) (simp add: setFlash_now hasFlash_def)
  have noTorch: "\<not> deferred \<and> videoTrack s = Some t
        \<and> (case photoCapabilities P t of None \<Rightarrow> True | Some modes \<Rightarrow> ''flash'' \<notin> set modes)
      \<longrightarrow> fst (setFlash P on s) = Inl NoFlashAvailable"
    unfolding deferred_def
    by (intro impI, elim conjE)
       (simp add: setFlash_now hasFlash_def split: option.splits)
  have noTrack: "\<not> deferred \<and> imageCapture P \<and> videoTrack s = None \<longrightarrow>
      fst (setFlash P on s) = Inl CameraNotStarted"
    unfolding deferred_def
    by (intro impI, elim conjE) (simp add: setFlash_now hasFlash_def)
  have rollback: "on \<noteq> flashOn s \<and> isl (fst (setFlash P on s)) \<longrightarrow>
      snd (setFlash P on s) = s"
  proof (intro impI, elim conjE)
    assume change: "on \<noteq> flashOn s" and "isl (fst (setFlash P on s))"
    then obtain e where "fst (setFlash P on s) = Inl e"
      by (cases "fst (setFlash P on s)") simp_all
    then have "snd (setFlash P on s) = s\<lparr>flashOn := \<not> on\<rparr>"
      by (rule setFlash_failure)
    moreover have "(\<not> on) = flashOn s"
      using change by auto
    ultimately show "snd (setFlash P on s) = s"
      by simp
  qed
  have restart: "flashOn s0 \<and> (\<not> active s0 \<or> paused s0) \<and> srcObject (video s0) = None
        \<and> \<not> document_hidden P \<and> imageCapture P
        \<and> (getCameraStream P (Some (preferredCamera s0)) True = (Inr st, tried)
            \<or> (\<exists>e tried1 tried2.
                  getCameraStream P (Some (preferredCamera s0)) True = (Inl e, tried1)
                  \<and> getCameraStream P None False = (Inr st, tried2)
                  \<and> tried = tried1 @ tried2))
        \<and> filter (\<lambda>t. track_kind t = VideoTrack) (stream_tracks st) = vt # vts
        \<and> photoCapabilities P vt = Some caps \<and> ''flash'' \<in> set caps
        \<and> applyConstraints P vt True = None \<longrightarrow>
      fst (start P s0) = Inr ()
      \<and> flashOn (snd (start P s0))
      \<and> srcObject (video (snd (start P s0))) = Some st
      \<and> trace (snd (start P s0)) =
          trace s0 @ map GetUserMedia tried @ [VideoPlay, TorchSet (track_id vt) True]"
  proof (intro impI, elim conjE)
    assume f: "flashOn s0" and idle: "\<not> active s0 \<or> paused s0"
      and detached: "srcObject (video s0) = None"
      and visible: "\<not> document_hidden P" and cap: "imageCapture P"
      and got: "getCameraStream P (Some (preferredCamera s0)) True = (Inr st, tried)
          \<or> (\<exists>e tried1 tried2.
                getCameraStream P (Some (preferredCamera s0)) True = (Inl e, tried1)
                \<and> getCameraStream P None False = (Inr st, tried2)
                \<and> tried = tried1 @ tried2)"
      and track: "filter (\<lambda>t. track_kind t = VideoTrack) (stream_tracks st) = vt # vts"
      and caps: "photoCapabilities P vt = Some caps" "''flash'' \<in> set caps"
      and torch: "applyConstraints P vt True = None"
    let ?s2 = "s0\<lparr>active := True, paused := False\<rparr>"
    let ?s3 = "emit (map GetUserMedia tried) ?s2"
    have first: "start P s0 = start_acquire P ?s2"
      using idle detached visible by (auto simp: start_def Let_def)
    have flags: "flashOn ?s3" "active ?s3" "\<not> paused ?s3"
      using f by (simp_all add: emit_def)
    have lit: "fst (start P s0) = Inr ()
      \<and> flashOn (snd (start P s0))
      \<and> srcObject (video (snd (start P s0))) = Some st
      \<and> trace (snd (start P s0)) =
          trace s0 @ map GetUserMedia tried @ [VideoPlay, TorchSet (track_id vt) True]"
      if eq: "start_acquire P ?s2 = (Inr (), start_then P st g ?s3)" for g
      using start_then_flash [OF flags cap track caps torch, of g]
      by (simp add: first eq start_then_fields emit_def)
    from got show "fst (start P s0) = Inr ()
      \<and> flashOn (snd (start P s0))
      \<and> srcObject (video (snd (start P s0))) = Some st
      \<and> trace (snd (start P s0)) =
          trace s0 @ map GetUserMedia tried @ [VideoPlay, TorchSet (track_id vt) True]"
    proof
      assume "getCameraStream P (Some (preferredCamera s0)) True = (Inr st, tried)"
      then have "start_acquire P ?s2 =
          (Inr (),
           start_then P st
             (if preferredCamera ?s2 = ''environment'' \<or> preferredCamera ?s2 = ''user''
              then Some (preferredCamera ?s2) else None) ?s3)"
        by (intro start_acquire_exact) simp
      then show ?thesis
        by (rule lit)
    next
      assume "\<exists>e tried1 tried2.
          getCameraStream P (Some (preferredCamera s0)) True = (Inl e, tried1)
          \<and> getCameraStream P None False = (Inr st, tried2)
          \<and> tried = tried1 @ tried2"
      then obtain e tried1 tried2
        where "getCameraStream P (Some (preferredCamera s0)) True = (Inl e, tried1)"
          and "getCameraStream P None False = (Inr st, tried2)"
          and "tried = tried1 @ tried2"
        by blast
      then have "start_acquire P ?s2 =
          (Inr (),
           start_then P st
             (Some (if preferredCamera ?s2 = ''environment'' then ''user''
                    else ''environment'')) ?s3)"
        using start_acquire_fallback [of P ?s2 e tried1 st tried2] by simp
      then show ?thesis
        by (rule lit)
    qed
  qed
  show ?thesis
    by (intro conjI) (rule d noCapture noTorch noTrack rollback restart)+
qed

lemma example_videoTrack: "videoTrack example_scanning = Some example_track"
  by (simp add: videoTrack_def example_scanning_facts example_stream_def example_track_def)

lemma example_plain_exact:
  "getCameraStream example_platform_plain (Some ''environment'') True =
     (Inl CameraNotFound,
      [\<lparr>min_width = Some 1024, facingMode = Some (Exact ''environment''), deviceId = None\<rparr>,
       \<lparr>min_width = Some 768, facingMode = Some (Exact ''environment''), deviceId = None\<rparr>,
       \<lparr>min_width = None, facingMode = Some (Exact ''environment''), deviceId = None\<rparr>])"
  by (simp add: getCameraStream_def constraintsToTry_def constraintsToTry_initial_def
        annotate_def getMatchingCameraStream.simps example_platform_plain_def
        example_platform_def)

lemma example_plain_fallback:
  "getCameraStream example_platform_plain None False =
     (Inr example_stream, [\<lparr>min_width = Some 1024, facingMode = None, deviceId = None\<rparr>])"
  by (simp add: getCameraStream_def constraintsToTry_def constraintsToTry_initial_def
        getMatchingCameraStream.simps example_platform_plain_def example_platform_def)

theorem setFlash_outcomes_witness:
  "setFlash example_platform True (new_scanner ''environment'') =
     (Inr (), (new_scanner ''environment'')\<lparr>flashOn := True\<rparr>)
   \<and> fst (setFlash (example_platform\<lparr>imageCapture := False\<rparr>) True example_scanning) =
       Inl NoFlashAvailable
   \<and> snd (setFlash (example_platform\<lparr>imageCapture := False\<rparr>) True example_scanning) =
       example_scanning
   \<and> fst (setFlash (example_platform\<lparr>photoCapabilities := (\<lambda>t. Some [''off''])\<rparr>) True
           example_scanning) = Inl NoFlashAvailable
   \<and> fst (setFlash example_platform False (new_scanner ''environment'')) =
       Inl CameraNotStarted
   \<and> fst (start example_platform ((new_scanner ''environment'')\<lparr>flashOn := True\<rparr>)) = Inr ()
   \<and> flashOn (snd (start example_platform ((new_scanner ''environment'')\<lparr>flashOn := True\<rparr>)))
   \<and> trace (snd (start example_platform ((new_scanner ''environment'')\<lparr>flashOn := True\<rparr>))) =
       [GetUserMedia \<lparr>min_width = Some 1024, facingMode = Some (Exact ''environment''),
                      deviceId = None\<rparr>,
        GetUserMedia \<lparr>min_width = Some 768, facingMode = Some (Exact ''environment''),
                      deviceId = None\<rparr>,
        VideoPlay, TorchSet 1 True]
   \<and> fst (start example_platform_plain ((new_scanner ''environment'')\<lparr>flashOn := True\<rparr>)) =
       Inr ()
   \<and> flashOn (snd (start example_platform_plain
         ((new_scanner ''environment'')\<lparr>flashOn := True\<rparr>)))
   \<and> trace (snd (start example_platform_plain
         ((new_scanner ''environment'')\<lparr>flashOn := True\<rparr>))) =
       [GetUserMedia \<lparr>min_width = Some 1024, facingMode = Some (Exact ''environment''),
                      deviceId = None\<rparr>,
        GetUserMedia \<lparr>min_width = Some 768, facingMode = Some (Exact ''environment''),
                      deviceId = None\<rparr>,
        GetUserMedia \<lparr>min_width = None, facingMode = Some (Exact ''environment''),
                      deviceId = None\<rparr>,
        GetUserMedia \<lparr>min_width = Some 1024, facingMode = None, deviceId = None\<rparr>,
        VideoPlay, TorchSet 1 True]"
proof -
  let ?fresh = "new_scanner ''environment''"
  let ?noCapture = "example_platform\<lparr>imageCapture := False\<rparr>"
  let ?noTorch = "example_platform\<lparr>photoCapabilities := (\<lambda>t. Some [''off''])\<rparr>"
  let ?recorded = "(new_scanner ''environment'')\<lparr>flashOn := True\<rparr>"
  let ?tried = "[\<lparr>min_width = Some 1024, facingMode = Some (Exact ''environment''),
                   deviceId = None\<rparr>,
                 \<lparr>min_width = Some 768, facingMode = Some (Exact ''environment''),
                   deviceId = None\<rparr>]"
  let ?tried1 = "[\<lparr>min_width = Some 1024, facingMode = Some (Exact ''environment''),
                    deviceId = None\<rparr>,
                  \<lparr>min_width = Some 768, facingMode = Some (Exact ''environment''),
                    deviceId = None\<rparr>,
                  \<lparr>min_width = None, facingMode = Some (Exact ''environment''),
                    deviceId = None\<rparr>]"
  let ?tried2 = "[\<lparr>min_width = Some 1024, facingMode = None, deviceId = None\<rparr>]"
  have fresh: "\<not> active ?fresh" "\<not> flashOn ?fresh" "videoTrack ?fresh = None"
    "srcObject (video ?fresh) = None" "preferredCamera ?fresh = ''environment''"
    "trace ?fresh = []"
    by (simp_all add: new_scanner_def videoTrack_def)
  have P: "imageCapture example_platform" "\<not> document_hidden example_platform"
    "photoCapabilities example_platform example_track = Some [''off'', ''flash'']"
    "applyConstraints example_platform example_track True = None"
    "\<not> imageCapture ?noCapture"
    "photoCapabilities ?noTorch example_track = Some [''off'']"
    by (simp_all add: example_platform_def)
  have Q: "imageCapture example_platform_plain" "\<not> document_hidden example_platform_plain"
    "photoCapabilities example_platform_plain example_track = Some [''off'', ''flash'']"
    "applyConstraints example_platform_plain example_track True = None"
    by (simp_all add: example_platform_plain_def example_platform_def)
  have tracks: "filter (\<lambda>t. track_kind t = VideoTrack) (stream_tracks example_stream) =
      example_track # []"
    by (simp add: example_stream_def example_track_def)
  note off = setFlash_outcomes [where P = example_platform and on = True and s = ?fresh]
  have deferred: "setFlash example_platform True ?fresh = (Inr (), ?fresh\<lparr>flashOn := True\<rparr>)"
    using off [THEN conjunct1] fresh by simp
  note dark = setFlash_outcomes [where P = ?noCapture and on = True and s = example_scanning]
  have noCapture: "fst (setFlash ?noCapture True example_scanning) = Inl NoFlashAvailable"
    using dark [THEN conjunct2, THEN conjunct1] P example_scanning_facts by simp
  have rollback: "snd (setFlash ?noCapture True example_scanning) = example_scanning"
    using dark [THEN conjunct2, THEN conjunct2, THEN conjunct2, THEN conjunct2, THEN conjunct1]
      noCapture example_scanning_facts by simp
  note dim = setFlash_outcomes [where P = ?noTorch and on = True and s = example_scanning
      and t = example_track]
  have noTorch: "fst (setFlash ?noTorch True example_scanning) = Inl NoFlashAvailable"
    using dim [THEN conjunct2, THEN conjunct2, THEN conjunct1] P example_scanning_facts
      example_videoTrack by simp
  note bare = setFlash_outcomes [where P = example_platform and on = False and s = ?fresh]
  have noTrack: "fst (setFlash example_platform False ?fresh) = Inl CameraNotStarted"
    using bare [THEN conjunct2, THEN conjunct2, THEN conjunct2, THEN conjunct1] P fresh
    by simp
  have recorded: "flashOn ?recorded" "\<not> active ?recorded"
    "srcObject (video ?recorded) = None" "preferredCamera ?recorded = ''environment''"
    "trace ?recorded = []"
    by (simp_all add: new_scanner_def)
  have flash: "''flash'' \<in> set [''off'', ''flash'']"
    by simp
  note exact = setFlash_outcomes [where P = example_platform and s0 = ?recorded
      and st = example_stream and tried = ?tried and vt = example_track and vts = "[]"
      and caps = "[''off'', ''flash'']"]
  have restart: "fst (start example_platform ?recorded) = Inr ()
      \<and> flashOn (snd (start example_platform ?recorded))
      \<and> srcObject (video (snd (start example_platform ?recorded))) = Some example_stream
      \<and> trace (snd (start example_platform ?recorded)) =
          trace ?recorded @ map GetUserMedia ?tried @
          [VideoPlay, TorchSet (track_id example_track) True]"
    using exact [THEN conjunct2, THEN conjunct2, THEN conjunct2, THEN conjunct2, THEN conjunct2]
      flash P recorded tracks example_getCameraStream
    by (simp del: set_simps)
  note plain = setFlash_outcomes [where P = example_platform_plain and s0 = ?recorded
      and st = example_stream and tried = "?tried1 @ ?tried2" and vt = example_track
      and vts = "[]" and caps = "[''off'', ''flash'']"]
  have fallback: "fst (start example_platform_plain ?recorded) = Inr ()
      \<and> flashOn (snd (start example_platform_plain ?recorded))
      \<and> srcObject (video (snd (start example_platform_plain ?recorded))) = Some example_stream
      \<and> trace (snd (start example_platform_plain ?recorded)) =
          trace ?recorded @ map GetUserMedia (?tried1 @ ?tried2) @
          [VideoPlay, TorchSet (track_id example_track) True]"
    using plain [THEN conjunct2, THEN conjunct2, THEN conjunct2, THEN conjunct2, THEN conjunct2]
      flash Q recorded tracks example_plain_exact example_plain_fallback
    by (simp del: set_simps)
  show ?thesis
    using deferred noCapture rollback noTorch noTrack restart fallback
    by (simp add: recorded example_track_def)
qed

text \<open>
  Claim C10 as stated fails: in a browser with \<open>ImageCapture\<close>, turning the flash off
  on a scanner that has no video track is rejected with \<open>CameraNotStarted\<close>, which is
  not \<open>NoFlashAvailable\<close>; and the flag, which was off before the call, is on after it.
\<close>

theorem setFlash_no_track_counterexample:
  "imageCapture example_platform
   \<and> videoTrack (new_scanner ''environment'') = None
   \<and> \<not> flashOn (new_scanner ''environment'')
   \<and> fst (setFlash example_platform False (new_scanner ''environment'')) = Inl CameraNotStarted
   \<and> flashOn (snd (setFlash example_platform False (new_scanner ''environment'')))"
  by (simp add: setFlash_def hasFlash_def videoTrack_def new_scanner_def Let_def
        example_platform_def)

section \<open>Properties of the one-shot decode\<close>

lemma decode_outcome_fst [simp]:
  "fst (decode P e ext c w) = decode_outcome P e c"
  by (simp add: decode_def Let_def split: engine_kind.splits)

lemma map_filter_append: "List.map_filter f (xs @ ys) = List.map_filter f xs @ List.map_filter f ys"
  by (simp add: map_filter_def)

lemma decode_requests_append [simp]:
  "decode_requests (w\<lparr>calls := calls w @ cs\<rparr>) =
     decode_requests w @ List.map_filter decode_request cs"
  by (simp add: decode_requests_def map_filter_append)

lemma close_requests_append [simp]:
  "close_requests (w\<lparr>calls := calls w @ cs\<rparr>) =
     close_requests w @ List.map_filter close_request cs"
  by (simp add: close_requests_def map_filter_append)

lemma decode_world [simp]:
  "decode_requests (snd (decode P e ext c w)) = decode_requests w @ [(engine_id e, c)]"
  "close_requests (snd (decode P e ext c w)) = close_requests w"
  "created (snd (decode P e ext c w)) = created w"
  by (simp_all add: decode_def Let_def split: engine_kind.splits)

lemma createQrEngine_world [simp]:
  "decode_requests (snd (createQrEngine P w)) = decode_requests w"
  "close_requests (snd (createQrEngine P w)) = close_requests w"
  "created (snd (createQrEngine P w)) = created w @ [fst (createQrEngine P w)]"
  by (simp_all add: createQrEngine_def Let_def decode_requests_def close_requests_def)

lemma postWorkerMessage_Close [simp]:
  "decode_requests (postWorkerMessage q Close w) = decode_requests w"
  "created (postWorkerMessage q Close w) = created w"
  "close_requests (postWorkerMessage q Close w) =
     close_requests w @
     (case q of
        None \<Rightarrow> []
      | Some e \<Rightarrow> if engine_kind e = WorkerEngine then [engine_id e] else [])"
  by (simp_all add: postWorkerMessage_def split: option.splits)

text \<open>The engine an attempt uses, and the world once that engine exists.\<close>

lemma scanImage_attempt_loaded:
  assumes "loadImage P src = Some (Inr img)"
  shows "scanImage_attempt P src scanRegion qrEngine canvas disallow ext w =
     (let e = (case qrEngine of None \<Rightarrow> fst (createQrEngine P w) | Some g \<Rightarrow> g);
          w1 = (case qrEngine of None \<Rightarrow> snd (createQrEngine P w) | Some g \<Rightarrow> w);
          c = drawToCanvas img scanRegion canvas disallow
      in ((Some (decode_outcome P e c), Some e, Some c), snd (decode P e ext c w1)))"
  using assms
  by (simp add: scanImage_attempt_def Let_def split_beta split: option.splits)

lemma scanImage_attempt_unloaded:
  assumes "loadImage P src = Some (Inl err)"
  shows "scanImage_attempt P src scanRegion qrEngine canvas disallow ext w =
     ((Some (Inl err), qrEngine, canvas),
      (case qrEngine of None \<Rightarrow> snd (createQrEngine P w) | Some g \<Rightarrow> w))"
  using assms
  by (simp add: scanImage_attempt_def Let_def split_beta split: option.splits)

lemma scanImage_attempt_unsettled:
  assumes "loadImage P src = None"
  shows "scanImage_attempt P src scanRegion qrEngine canvas disallow ext w =
     ((None, qrEngine, canvas),
      (case qrEngine of None \<Rightarrow> snd (createQrEngine P w) | Some g \<Rightarrow> w))"
  using assms
  by (simp add: scanImage_attempt_def Let_def split_beta split: option.splits)

lemma loadImage_cases:
  obtains (unsettled) "loadImage P src = None"
  | (unloaded) err where "loadImage P src = Some (Inl err)"
  | (loaded) img where "loadImage P src = Some (Inr img)"
proof (cases "loadImage P src")
  case None
  then show thesis
    by (rule unsettled)
next
  case (Some res)
  then show thesis
    using unloaded loaded by (cases res) simp_all
qed

text \<open>A call without the retry: one attempt, then the \<open>finally\<close> callback.\<close>

lemma scanImage_single:
  assumes "scanRegion = None \<or> \<not> alsoTry"
  shows "scanImage P src scanRegion qrEngine canvas disallow alsoTry w =
     (let ext = (case qrEngine of None \<Rightarrow> False | Some e \<Rightarrow> engine_kind e = WorkerEngine);
          first = scanImage_attempt P src scanRegion qrEngine canvas disallow ext w
      in (fst (fst first),
          if fst (fst first) = None \<or> ext then snd first
          else postWorkerMessage (fst (snd (fst first))) Close (snd first)))"
  using assms by (subst scanImage.simps) (auto simp: Let_def)

text \<open>A call with the retry: the second call is one without.\<close>

lemma scanImage_retry:
  "scanImage P src (Some r) qrEngine canvas disallow True w =
     (let ext = (case qrEngine of None \<Rightarrow> False | Some e \<Rightarrow> engine_kind e = WorkerEngine);
          first = scanImage_attempt P src (Some r) qrEngine canvas disallow ext w;
          second = (case fst (fst first) of
                      None \<Rightarrow> (None, snd first)
                    | Some (Inr v) \<Rightarrow> (Some (Inr v), snd first)
                    | Some (Inl err) \<Rightarrow>
                        scanImage P src None (fst (snd (fst first))) (snd (snd (fst first)))
                          disallow False (snd first))
      in (fst second,
          if fst second = None \<or> ext then snd second
          else postWorkerMessage (fst (snd (fst first))) Close (snd second)))"
  by (subst scanImage.simps) (simp add: Let_def)

text \<open>
  Claim C7. A call with a region and \<open>alsoTryWithoutScanRegion\<close>, on a source that
  loads, whose decode of the region fails: the result is the outcome of decoding the
  whole frame, whether payload or error; exactly two decode requests are made, to the
  same engine, the first for the canvas with the region and the second for the canvas
  with the whole frame, drawn on the canvas of the first.
\<close>

theorem scanImage_retries_whole_frame_once:
  fixes P :: platform and img :: image and r :: scan_region
    and qrEngine :: "engine option" and canvas :: "canvas option" and disallow :: bool
    and w :: world
  defines "e \<equiv> (case qrEngine of None \<Rightarrow> fst (createQrEngine P w) | Some g \<Rightarrow> g)"
  defines "regionCanvas \<equiv> drawToCanvas img (Some r) canvas disallow"
  defines "frameCanvas \<equiv> drawToCanvas img None (Some regionCanvas) disallow"
  assumes loaded: "loadImage P src = Some (Inr img)"
    and failed: "decode_outcome P e regionCanvas = Inl err"
  shows "fst (scanImage P src (Some r) qrEngine canvas disallow True w) =
           Some (decode_outcome P e frameCanvas)
       \<and> decode_requests (snd (scanImage P src (Some r) qrEngine canvas disallow True w)) =
           decode_requests w @ [(engine_id e, regionCanvas), (engine_id e, frameCanvas)]
       \<and> canvas_content frameCanvas =
           Some \<lparr>bm_image = img, bm_sx = Some 0, bm_sy = Some 0,
                 bm_sw = js_or (image_width img) (image_videoWidth img),
                 bm_sh = js_or (image_height img) (image_videoHeight img),
                 bm_dw = canvas_width frameCanvas, bm_dh = canvas_height frameCanvas\<rparr>"
proof -
  let ?w1 = "case qrEngine of None \<Rightarrow> snd (createQrEngine P w) | Some g \<Rightarrow> w"
  have first: "scanImage_attempt P src (Some r) qrEngine canvas disallow x w =
      ((Some (Inl err), Some e, Some regionCanvas), snd (decode P e x regionCanvas ?w1))" for x
    using failed
    by (simp add: scanImage_attempt_loaded [OF loaded] Let_def e_def regionCanvas_def)
  have second: "scanImage_attempt P src None (Some e) (Some regionCanvas) disallow x w' =
      ((Some (decode_outcome P e frameCanvas), Some e, Some frameCanvas),
       snd (decode P e x frameCanvas w'))" for x w'
    by (simp add: scanImage_attempt_loaded [OF loaded] Let_def frameCanvas_def)
  have retry: "fst (scanImage P src None (Some e) (Some regionCanvas) disallow False w') =
        Some (decode_outcome P e frameCanvas)"
    "decode_requests (snd (scanImage P src None (Some e) (Some regionCanvas) disallow False w')) =
        decode_requests w' @ [(engine_id e, frameCanvas)]" for w'
    by (simp_all add: scanImage_single Let_def second)
  have w1: "decode_requests ?w1 = decode_requests w"
    by (cases qrEngine) simp_all
  have result: "fst (scanImage P src (Some r) qrEngine canvas disallow True w) =
      Some (decode_outcome P e frameCanvas)"
    by (simp add: scanImage_retry Let_def first retry)
  have requests: "decode_requests (snd (scanImage P src (Some r) qrEngine canvas disallow True w)) =
      decode_requests w @ [(engine_id e, regionCanvas), (engine_id e, frameCanvas)]"
    by (simp add: scanImage_retry Let_def first retry w1)
  have content: "canvas_content frameCanvas =
      Some \<lparr>bm_image = img, bm_sx = Some 0, bm_sy = Some 0,
            bm_sw = js_or (image_width img) (image_videoWidth img),
            bm_sh = js_or (image_height img) (image_videoHeight img),
            bm_dw = canvas_width frameCanvas, bm_dh = canvas_height frameCanvas\<rparr>"
    by (simp add: frameCanvas_def drawToCanvas_def drawImage_def Let_def scanRegionX_def
          scanRegionY_def scanRegionWidth_def scanRegionHeight_def)
  show ?thesis
    using result requests content by simp
qed


theorem scanImage_retries_whole_frame_once_witness:
  "loadImage example_platform (Drawable example_frame) = Some (Inr example_frame)
   \<and> decode_outcome example_platform (fst (createQrEngine example_platform empty_world))
         (drawToCanvas example_frame (Some example_region) None False) = Inl NoQrCodeFound
   \<and> decode_outcome example_platform (fst (createQrEngine example_platform empty_world))
         (drawToCanvas example_frame None
            (Some (drawToCanvas example_frame (Some example_region) None False)) False) =
       Inr ''ABC123''
   \<and> fst (scanImage example_platform (Drawable example_frame) (Some example_region) None None
           False True empty_world) = Some (Inr ''ABC123'')
   \<and> decode_requests (snd (scanImage example_platform (Drawable example_frame)
           (Some example_region) None None False True empty_world)) =
       [(0, drawToCanvas example_frame (Some example_region) None False),
        (0, drawToCanvas example_frame None
              (Some (drawToCanvas example_frame (Some example_region) None False)) False)]"
proof -
  let ?e = "fst (createQrEngine example_platform empty_world)"
  let ?regionCanvas = "drawToCanvas example_frame (Some example_region) None False"
  let ?frameCanvas = "drawToCanvas example_frame None (Some ?regionCanvas) False"
  have e: "?e = \<lparr>engine_id = 0, engine_kind = WorkerEngine\<rparr>"
    by (simp add: createQrEngine_def Let_def example_platform_def empty_world_def)
  have loaded: "loadImage example_platform (Drawable example_frame) = Some (Inr example_frame)"
    by (simp add: loadImage_def)
  have region: "canvas_content ?regionCanvas =
      Some \<lparr>bm_image = example_frame, bm_sx = Some 160, bm_sy = Some 80, bm_sw = Some 320,
            bm_sh = Some 320, bm_dw = 400, bm_dh = 400\<rparr>"
    by (simp add: drawToCanvas_def drawImage_def resize_canvas_def Let_def
          set_canvas_width_def set_canvas_height_def canvasWidth_def canvasHeight_def
          scanRegionX_def scanRegionY_def scanRegionWidth_def scanRegionHeight_def
          truthy_def reflect_ulong_def ToUint32_def example_region_def
          createElement_canvas_def)
  have failed: "decode_outcome example_platform ?e ?regionCanvas = Inl NoQrCodeFound"
    by (simp only: e) (simp add: decode_outcome_def region worker_outcome_def example_platform_def)
  note retried = scanImage_retries_whole_frame_once [OF loaded,
      where qrEngine = None and w = empty_world and r = example_region and canvas = None
        and disallow = False and err = NoQrCodeFound, simplified, OF failed]
  have frame: "bm_sw (the (canvas_content ?frameCanvas)) = Some 640"
    using retried by (simp add: js_or_def truthy_def example_frame_def)
  have found: "decode_outcome example_platform ?e ?frameCanvas = Inr ''ABC123''"
    using retried frame
    by (simp only: e) (simp add: decode_outcome_def worker_outcome_def example_platform_def)
  have none: "decode_requests empty_world = []"
    by (simp add: decode_requests_def empty_world_def)
  show ?thesis
    using loaded failed found retried by (simp add: none e)
qed

text \<open>When the decode of the region succeeds there is no second request.\<close>

lemma scanImage_region_found:
  assumes "loadImage P src = Some (Inr img)"
    and "decode_outcome P (case qrEngine of None \<Rightarrow> fst (createQrEngine P w) | Some g \<Rightarrow> g)
           (drawToCanvas img scanRegion canvas disallow) = Inr payload"
  shows "fst (scanImage P src scanRegion qrEngine canvas disallow alsoTry w) =
           Some (Inr payload)"
    and "decode_requests (snd (scanImage P src scanRegion qrEngine canvas disallow alsoTry w)) =
           decode_requests w @
           [(engine_id (case qrEngine of None \<Rightarrow> fst (createQrEngine P w) | Some g \<Rightarrow> g),
             drawToCanvas img scanRegion canvas disallow)]"
proof -
  let ?w1 = "case qrEngine of None \<Rightarrow> snd (createQrEngine P w) | Some g \<Rightarrow> w"
  let ?e = "case qrEngine of None \<Rightarrow> fst (createQrEngine P w) | Some g \<Rightarrow> g"
  let ?c = "drawToCanvas img scanRegion canvas disallow"
  have first: "scanImage_attempt P src scanRegion qrEngine canvas disallow x w =
      ((Some (Inr payload), Some ?e, Some ?c), snd (decode P ?e x ?c ?w1))" for x
    using assms(2) by (simp add: scanImage_attempt_loaded [OF assms(1)] Let_def)
  have w1: "decode_requests ?w1 = decode_requests w"
    by (cases qrEngine) simp_all
  show "fst (scanImage P src scanRegion qrEngine canvas disallow alsoTry w) =
      Some (Inr payload)"
    by (subst scanImage.simps) (simp add: Let_def first)
  show "decode_requests (snd (scanImage P src scanRegion qrEngine canvas disallow alsoTry w)) =
      decode_requests w @ [(engine_id ?e, ?c)]"
    by (subst scanImage.simps) (simp add: Let_def first w1)
qed

text \<open>
  An engine the caller supplies is never told to close, and no engine is created beside
  it, whatever the source, the region and the outcome.
\<close>

lemma scanImage_single_external:
  assumes "scanRegion = None \<or> \<not> alsoTry"
  shows "close_requests (snd (scanImage P src scanRegion (Some g) canvas disallow alsoTry w)) =
           close_requests w
       \<and> created (snd (scanImage P src scanRegion (Some g) canvas disallow alsoTry w)) =
           created w"
proof (cases rule: loadImage_cases [of P src])
  case unsettled
  then show ?thesis
    by (simp add: scanImage_single [OF assms] Let_def scanImage_attempt_unsettled)
next
  case (unloaded err)
  then show ?thesis
    by (simp add: scanImage_single [OF assms] Let_def scanImage_attempt_unloaded)
next
  case (loaded img)
  then show ?thesis
    by (simp add: scanImage_single [OF assms] Let_def scanImage_attempt_loaded)
qed

lemma scanImage_external_engine_kept:
  "close_requests (snd (scanImage P src scanRegion (Some g) canvas disallow alsoTry w)) =
     close_requests w
   \<and> created (snd (scanImage P src scanRegion (Some g) canvas disallow alsoTry w)) =
       created w"
proof (cases "scanRegion = None \<or> \<not> alsoTry")
  case True
  then show ?thesis
    by (rule scanImage_single_external)
next
  case False
  then obtain r where r: "scanRegion = Some r" and t: "alsoTry"
    by auto
  note inner = scanImage_single_external [where scanRegion = None and alsoTry = False
      and P = P and src = src and g = g and disallow = disallow, simplified]
  show ?thesis
  proof (cases rule: loadImage_cases [of P src])
    case unsettled
    then show ?thesis
      by (simp add: r t scanImage_retry Let_def scanImage_attempt_unsettled)
  next
    case (unloaded err)
    then show ?thesis
      by (simp add: r t scanImage_retry Let_def scanImage_attempt_unloaded inner)
  next
    case (loaded img)
    then show ?thesis
      by (cases "decode_outcome P g (drawToCanvas img (Some r) canvas disallow)")
         (simp_all add: r t scanImage_retry Let_def scanImage_attempt_loaded inner)
  qed
qed

text \<open>
  Without a supplied engine and with a source that loads, one engine is created, and it
  is told to close once, at the end, if it is a worker.
\<close>

lemma scanImage_internal_engine_closed:
  assumes loaded: "loadImage P src = Some (Inr img)"
  shows "created (snd (scanImage P src scanRegion None canvas disallow alsoTry w)) =
           created w @ [fst (createQrEngine P w)]
       \<and> close_requests (snd (scanImage P src scanRegion None canvas disallow alsoTry w)) =
           close_requests w @
           (if engine_kind (fst (createQrEngine P w)) = WorkerEngine
            then [engine_id (fst (createQrEngine P w))] else [])"
proof (cases "scanRegion = None \<or> \<not> alsoTry")
  case True
  then show ?thesis
    by (simp add: scanImage_single Let_def scanImage_attempt_loaded [OF loaded])
next
  case False
  then obtain r where r: "scanRegion = Some r" and t: "alsoTry"
    by auto
  have settles: "fst (scanImage P src None (Some g) cv disallow False w') \<noteq> None" for g cv w'
    by (simp add: scanImage_single Let_def scanImage_attempt_loaded [OF loaded])
  note inner = scanImage_single_external [where scanRegion = None and alsoTry = False
      and P = P and src = src and disallow = disallow, simplified]
  show ?thesis
    by (cases "decode_outcome P (fst (createQrEngine P w))
                 (drawToCanvas img (Some r) canvas disallow)")
       (simp_all add: r t scanImage_retry Let_def scanImage_attempt_loaded [OF loaded] inner
          settles)
qed

text \<open>
  Without a supplied engine and with a source that does not load, the engine that was
  created is never told to close; with the retry a second engine is created, and it is
  not told to close either.
\<close>

lemma scanImage_unloaded_engine_left_open:
  assumes unloaded: "loadImage P src = Some (Inl err)"
  shows "fst (scanImage P src scanRegion None canvas disallow alsoTry w) = Some (Inl err)
       \<and> close_requests (snd (scanImage P src scanRegion None canvas disallow alsoTry w)) =
           close_requests w
       \<and> created (snd (scanImage P src scanRegion None canvas disallow alsoTry w)) =
           created w @ fst (createQrEngine P w) #
           (if scanRegion \<noteq> None \<and> alsoTry
            then [fst (createQrEngine P (snd (createQrEngine P w)))] else [])"
proof (cases "scanRegion = None \<or> \<not> alsoTry")
  case True
  then show ?thesis
    by (auto simp: scanImage_single Let_def scanImage_attempt_unloaded [OF unloaded])
next
  case False
  then obtain r where r: "scanRegion = Some r" and t: "alsoTry"
    by auto
  have inner: "scanImage P src None None canvas disallow False w' =
      (Some (Inl err), postWorkerMessage None Close (snd (createQrEngine P w')))" for w'
    by (simp add: scanImage_single Let_def scanImage_attempt_unloaded [OF unloaded])
  show ?thesis
    by (simp add: r t scanImage_retry Let_def scanImage_attempt_unloaded [OF unloaded] inner)
qed

text \<open>
  With an \<open>Image\<close> whose events never fire the call never settles, and neither the
  retry nor the \<open>finally\<close> callback runs.
\<close>

lemma scanImage_unsettled:
  assumes "loadImage P src = None"
  shows "scanImage P src scanRegion qrEngine canvas disallow alsoTry w =
     (None, (case qrEngine of None \<Rightarrow> snd (createQrEngine P w) | Some g \<Rightarrow> w))"
  by (subst scanImage.simps) (simp add: Let_def scanImage_attempt_unsettled [OF assms])

lemma scanImage_unsettled_requests:
  assumes "loadImage P src = None"
  shows "close_requests (snd (scanImage P src scanRegion qrEngine canvas disallow alsoTry w)) =
           close_requests w"
    and "decode_requests (snd (scanImage P src scanRegion qrEngine canvas disallow alsoTry w)) =
           decode_requests w"
  by (cases qrEngine; simp add: scanImage_unsettled [OF assms])+

text \<open>
  Claim C8 at its failing input. The source is a URL whose image does not load, no
  engine is supplied, and the browser has no native detector: the call creates a worker,
  is rejected with \<open>ImageLoadError\<close>, and has posted nothing to the worker, so the
  worker is never told to close.
\<close>

theorem scanImage_load_failure_leaves_worker_open:
  "scanImage example_platform (Resource ''missing.png'') None None None False False
     empty_world =
     (Some (Inl ImageLoadError),
      \<lparr>created = [\<lparr>engine_id = 0, engine_kind = WorkerEngine\<rparr>], calls = []\<rparr>)
   \<and> close_requests (snd (scanImage example_platform (Resource ''missing.png'') None None
        None False False empty_world)) = []"
proof -
  have unloaded: "loadImage example_platform (Resource ''missing.png'') =
      Some (Inl ImageLoadError)"
    by (simp add: loadImage_def example_platform_def)
  have e: "createQrEngine example_platform empty_world =
      (\<lparr>engine_id = 0, engine_kind = WorkerEngine\<rparr>,
       \<lparr>created = [\<lparr>engine_id = 0, engine_kind = WorkerEngine\<rparr>], calls = []\<rparr>)"
    by (simp add: createQrEngine_def Let_def example_platform_def empty_world_def)
  have "scanImage example_platform (Resource ''missing.png'') None None None False False
      empty_world =
      (Some (Inl ImageLoadError),
       \<lparr>created = [\<lparr>engine_id = 0, engine_kind = WorkerEngine\<rparr>], calls = []\<rparr>)"
    by (simp add: scanImage_single Let_def scanImage_attempt_unloaded [OF unloaded] e
          postWorkerMessage_def)
  then show ?thesis
    by (simp add: close_requests_def)
qed

end
